theory Spec2Isabelle
  imports Complex_Main "HOL-Library.Sublist"
begin

section \<open>Values of the data feed\<close>

text \<open>
  PetMaps.jsx reads records of an open-data feed, takes a coordinate out of each one
  (embedded, or looked up by address through a geocoding service with a cache in
  localStorage) and ranks the located points by great-circle distance from the user.

  A JavaScript number is either finite or one of NaN, Infinity, -Infinity. A finite
  number is given by the real it denotes.
\<close>

datatype jsnum = Fin real | NaN | PosInf | NegInf

text \<open>
  The values \<open>JSON.parse\<close> can produce, and \<open>undefined\<close> for a property that is not there.
  A string is the list of its code units, each below 256; an object is the list of its
  entries, read by \<open>map_of\<close>; the order of the list carries no meaning.
\<close>

datatype jsv =
    JUndefined
  | JNull
  | JBool bool
  | JNum jsnum
  | JStr string
  | JArr "jsv list"
  | JObj "(string \<times> jsv) list"

type_synonym obj = "(string \<times> jsv) list"

type_synonym coord = "real \<times> real"

datatype error = SyntaxError | TypeError | RangeError | NetworkError

text \<open>ToBoolean, as \<open>if (v)\<close>, \<open>!v\<close>, \<open>a || b\<close> and \<open>a && b\<close> apply it.\<close>

fun truthy :: "jsv \<Rightarrow> bool" where
  "truthy JUndefined = False"
| "truthy JNull = False"
| "truthy (JBool b) = b"
| "truthy (JNum (Fin r)) = (r \<noteq> 0)"
| "truthy (JNum NaN) = False"
| "truthy (JNum n) = True"
| "truthy (JStr s) = (s \<noteq> [])"
| "truthy (JArr xs) = True"
| "truthy (JObj kvs) = True"

definition js_or :: "jsv \<Rightarrow> jsv \<Rightarrow> jsv" where
  "js_or a b = (if truthy a then a else b)"

text \<open>\<open>typeof v === 'object'\<close>: objects, arrays and null.\<close>

fun typeof_object :: "jsv \<Rightarrow> bool" where
  "typeof_object JNull = True"
| "typeof_object (JArr xs) = True"
| "typeof_object (JObj kvs) = True"
| "typeof_object v = False"

fun typeof_string :: "jsv \<Rightarrow> bool" where
  "typeof_string (JStr s) = True"
| "typeof_string v = False"

text \<open>The entry of an object under a key, or \<open>undefined\<close>.\<close>

definition field :: "obj \<Rightarrow> string \<Rightarrow> jsv" where
  "field kvs k = (case map_of kvs k of None \<Rightarrow> JUndefined | Some v \<Rightarrow> v)"

text \<open>
  \<open>v.k\<close> and \<open>v[k]\<close> for the property names the program writes out (\<open>intake_location\<close>,
  \<open>location\<close>, \<open>found_location\<close>, \<open>human_address\<close>, \<open>address\<close>, \<open>location_text\<close>, \<open>city\<close>,
  \<open>state\<close>, \<open>zip\<close>, \<open>latitude\<close>, \<open>longitude\<close>, \<open>lat\<close>, \<open>lon\<close>, \<open>name\<close>, \<open>animalid\<close>,
  \<open>species\<close>, \<open>photo_links\<close>): no built-in prototype has a property of one of these
  names, so only an object of the feed carries one; a string, an array, a number or a
  boolean gives \<open>undefined\<close>. On \<open>undefined\<close> and \<open>null\<close> the read throws: every use below
  is behind the guard the source has, or raises as the source does.
\<close>

fun js_get :: "jsv \<Rightarrow> string \<Rightarrow> jsv" where
  "js_get (JObj kvs) k = field kvs k"
| "js_get v k = JUndefined"

text \<open>\<open>v?.k\<close>\<close>

fun js_get_opt :: "jsv \<Rightarrow> string \<Rightarrow> jsv" where
  "js_get_opt JUndefined k = JUndefined"
| "js_get_opt JNull k = JUndefined"
| "js_get_opt v k = js_get v k"

text \<open>\<open>k in v\<close>, evaluated by the source only on values of type object that are truthy.\<close>

fun has_key :: "string \<Rightarrow> jsv \<Rightarrow> bool" where
  "has_key k (JObj kvs) = (map_of kvs k \<noteq> None)"
| "has_key k v = False"

text \<open>\<open>Number.isFinite\<close>\<close>

fun isFinite :: "jsnum \<Rightarrow> bool" where
  "isFinite (Fin r) = True"
| "isFinite n = False"

subsection \<open>parseFloat\<close>

text \<open>
  \<open>parseFloat\<close> drops leading white space and reads the longest prefix that is a
  StrDecimalLiteral: an optional sign, then \<open>Infinity\<close>, or digits with an optional
  fraction and exponent, or a fraction that starts with the point. No such prefix gives NaN.
  The white space among the code units below 256 is tab, line feed, vertical tab, form
  feed, carriage return, space and no-break space. The value read is kept exact where it
  is finite: rounding to the nearest double is not modelled, overflow to an infinity is.
\<close>

definition is_ws :: "char \<Rightarrow> bool" where
  "is_ws c = (c = CHR 0x09 \<or> c = CHR 0x0A \<or> c = CHR 0x0B \<or> c = CHR 0x0C
     \<or> c = CHR 0x0D \<or> c = CHR '' '' \<or> c = CHR 0xA0)"

definition is_digit :: "char \<Rightarrow> bool" where
  "is_digit c = (48 \<le> (of_char c :: nat) \<and> (of_char c :: nat) \<le> 57)"

definition digits_val :: "string \<Rightarrow> nat" where
  "digits_val ds = foldl (\<lambda>n c. 10 * n + (of_char c - 48)) 0 ds"

text \<open>
  A double holds magnitudes below \<open>2^1024 - 2^970\<close> (the largest double plus half a unit
  in its last place); from there on round-to-nearest gives an infinity.
\<close>

definition round_overflow :: "real \<Rightarrow> jsnum" where
  "round_overflow r =
     (if 2 ^ 1024 - 2 ^ 970 \<le> r then PosInf
      else if r \<le> - (2 ^ 1024 - 2 ^ 970) then NegInf
      else Fin r)"

text \<open>The ExponentPart at the front of the rest, 0 when there is none.\<close>

definition exponent_part :: "string \<Rightarrow> int" where
  "exponent_part r =
     (case r of
        [] \<Rightarrow> 0
      | c # r1 \<Rightarrow>
          if c = CHR ''e'' \<or> c = CHR ''E'' then
            (case r1 of
               [] \<Rightarrow> 0
             | s # r2 \<Rightarrow>
                 if s = CHR ''+'' then
                   (if takeWhile is_digit r2 = [] then 0
                    else int (digits_val (takeWhile is_digit r2)))
                 else if s = CHR ''-'' then
                   (if takeWhile is_digit r2 = [] then 0
                    else - int (digits_val (takeWhile is_digit r2)))
                 else if takeWhile is_digit r1 = [] then 0
                 else int (digits_val (takeWhile is_digit r1)))
          else 0)"

definition scale10 :: "real \<Rightarrow> int \<Rightarrow> real" where
  "scale10 m e = (if 0 \<le> e then m * 10 ^ nat e else m / 10 ^ nat (- e))"

text \<open>The value of the longest StrUnsignedDecimalLiteral prefix, None when there is none.\<close>

definition unsigned_literal :: "string \<Rightarrow> real option option" where
  "unsigned_literal s =
     (if take 8 s = ''Infinity'' then Some None
      else
        let ip = takeWhile is_digit s; r1 = dropWhile is_digit s in
        if ip = [] then
          (case r1 of
             [] \<Rightarrow> None
           | c # r2 \<Rightarrow>
               if c = CHR ''.'' then
                 (let fp = takeWhile is_digit r2; r3 = dropWhile is_digit r2 in
                  if fp = [] then None
                  else Some (Some (scale10 (real (digits_val fp) / 10 ^ length fp)
                                           (exponent_part r3))))
               else None)
        else
          (case r1 of
             [] \<Rightarrow> Some (Some (real (digits_val ip)))
           | c # r2 \<Rightarrow>
               if c = CHR ''.'' then
                 (let fp = takeWhile is_digit r2; r3 = dropWhile is_digit r2 in
                  Some (Some (scale10 (real (digits_val ip) + real (digits_val fp) / 10 ^ length fp)
                                      (exponent_part r3))))
               else Some (Some (scale10 (real (digits_val ip)) (exponent_part r1)))))"

definition parseFloat_str :: "string \<Rightarrow> jsnum" where
  "parseFloat_str s =
     (case dropWhile is_ws s of
        [] \<Rightarrow> NaN
      | c # r \<Rightarrow>
          if c = CHR ''-'' then
            (case unsigned_literal r of
               None \<Rightarrow> NaN
             | Some None \<Rightarrow> NegInf
             | Some (Some m) \<Rightarrow> round_overflow (- m))
          else if c = CHR ''+'' then
            (case unsigned_literal r of
               None \<Rightarrow> NaN
             | Some None \<Rightarrow> PosInf
             | Some (Some m) \<Rightarrow> round_overflow m)
          else
            (case unsigned_literal (c # r) of
               None \<Rightarrow> NaN
             | Some None \<Rightarrow> PosInf
             | Some (Some m) \<Rightarrow> round_overflow m))"

text \<open>
  \<open>parseFloat(v)\<close> works on \<open>ToString(v)\<close>. A number prints to a text that reads back as
  the same number. An array prints its elements joined by commas, and no literal
  contains a comma, so the prefix read is the one of its first element; \<open>undefined\<close>,
  \<open>null\<close>, \<open>true\<close>, \<open>false\<close> and \<open>[object Object]\<close> start no literal.
\<close>

fun parseFloat :: "jsv \<Rightarrow> jsnum" where
  "parseFloat (JStr s) = parseFloat_str s"
| "parseFloat (JNum n) = n"
| "parseFloat (JArr (x # xs)) = parseFloat x"
| "parseFloat v = NaN"

section \<open>Embedded coordinates and the address of a record\<close>

text \<open>
  A record is an element of the array the feed sent: any JSON value. The pair \<open>[lat, lng]\<close>
  of two finite numbers is \<open>pair_json\<close>.
\<close>

definition pair_json :: "coord \<Rightarrow> jsv" where
  "pair_json c = JArr [JNum (Fin (fst c)), JNum (Fin (snd c))]"

definition candidates :: "string list" where
  "candidates = [''intake_location'', ''location'', ''found_location'']"

text \<open>The loop of \<open>getCoordsFromRecord\<close> over the candidate field names.\<close>

fun coords_scan :: "jsv \<Rightarrow> string list \<Rightarrow> coord option" where
  "coords_scan r [] = None"
| "coords_scan r (k # ks) =
     (let v = js_get r k in
      if truthy v \<and> typeof_object v \<and> has_key ''latitude'' v \<and> has_key ''longitude'' v then
        (case (parseFloat (js_get v ''latitude''), parseFloat (js_get v ''longitude'')) of
           (Fin la, Fin lo) \<Rightarrow> Some (la, lo)
         | _ \<Rightarrow> coords_scan r ks)
      else coords_scan r ks)"

text \<open>
  \<open>getCoordsFromRecord\<close>: the first read \<open>rec[k]\<close> throws a TypeError when the record is
  \<open>null\<close>; otherwise the pair found, or \<open>null\<close>.
\<close>

definition getCoordsFromRecord :: "jsv \<Rightarrow> error + jsv" where
  "getCoordsFromRecord r =
     (case r of
        JUndefined \<Rightarrow> Inl TypeError
      | JNull \<Rightarrow> Inl TypeError
      | _ \<Rightarrow> Inr (case coords_scan r candidates of None \<Rightarrow> JNull | Some c \<Rightarrow> pair_json c))"

text \<open>\<open>bestAddress\<close>, called only on a record that \<open>getCoordsFromRecord\<close> has read.\<close>

definition bestAddress :: "jsv \<Rightarrow> jsv" where
  "bestAddress r =
     js_or (js_get_opt (js_get r ''intake_location'') ''human_address'')
    (js_or (js_get_opt (js_get r ''found_location'') ''human_address'')
    (js_or (js_get r ''intake_location'')
    (js_or (js_get r ''found_location'')
    (js_or (js_get r ''address'')
    (js_or (js_get r ''location_text'') JNull)))))"

section \<open>The geocoder and its cache\<close>

text \<open>
  What \<open>cache[address]\<close> can give besides a JSON value: an object or function that the
  cache inherits from a built-in prototype, such as \<open>Object.prototype.constructor\<close> for the
  address \<open>constructor\<close>. Such a value is truthy; it cannot be iterated, except for the
  prototypes of arrays and strings, which iterate as empty.
\<close>

datatype builtin = NotIterable string | EmptyIterable string

datatype jsval = Json jsv | Builtin builtin

fun truthy_val :: "jsval \<Rightarrow> bool" where
  "truthy_val (Json v) = truthy v"
| "truthy_val (Builtin b) = True"

text \<open>
  The world outside the program: the item \<open>geoCache_v1\<close> of localStorage, the properties
  that values inherit from the built-in prototypes, the geocoding service, and the trace
  of what has happened so far: every call of \<open>geocode\<close> (kept for counting the calls;
  the program keeps no such log), every pacing delay with its milliseconds, every request
  with its query.

  The item is absent (or the empty string, which \<open>|| '{}'\<close> replaces as well), or a text
  that \<open>JSON.parse\<close> rejects, or a text that it reads as some JSON value. \<open>inherited w v k\<close>
  is the property named \<open>k\<close> that the value \<open>v\<close> finds on its prototype chain, if there is
  one. The service answers a request by failing, by a response that is not ok, by a body
  that is not JSON, or by a JSON value; the answer may depend on how many requests came
  before it and on the query. Reads and writes of localStorage themselves are taken to
  succeed, and \<open>JSON.stringify\<close> to stay within the limits of the implementation.
\<close>

datatype cache_store = Missing | Unparseable | Parsed jsv

datatype response = NetFail | NotOk | BadBody | Body jsv

datatype event = Invoked "string option" | Slept nat | Fetched string

record world =
  store :: cache_store
  inherited :: "jsv \<Rightarrow> string \<Rightarrow> builtin option"
  net :: "nat \<Rightarrow> string \<Rightarrow> response"
  events :: "event list"

definition emit :: "event \<Rightarrow> world \<Rightarrow> world" where
  "emit e w = w\<lparr>events := events w @ [e]\<rparr>"

fun is_fetch :: "event \<Rightarrow> bool" where
  "is_fetch (Fetched q) = True"
| "is_fetch e = False"

fun is_invocation :: "event \<Rightarrow> bool" where
  "is_invocation (Invoked a) = True"
| "is_invocation e = False"

text \<open>The number of requests sent so far, and of calls of \<open>geocode\<close> made so far.\<close>

definition requests :: "world \<Rightarrow> nat" where
  "requests w = length (filter is_fetch (events w))"

definition invocations :: "world \<Rightarrow> nat" where
  "invocations w = length (filter is_invocation (events w))"

text \<open>\<open>JSON.parse(localStorage.getItem(CACHE_KEY) || '{}')\<close>\<close>

definition load_cache :: "cache_store \<Rightarrow> error + jsv" where
  "load_cache s =
     (case s of
        Missing \<Rightarrow> Inr (JObj [])
      | Unparseable \<Rightarrow> Inl SyntaxError
      | Parsed v \<Rightarrow> Inr v)"

text \<open>
  An array index as a property name: the decimal digits of a number below \<open>2^32 - 1\<close>,
  without a leading zero.
\<close>

definition array_index :: "string \<Rightarrow> nat option" where
  "array_index k =
     (case k of
        [] \<Rightarrow> None
      | c # cs \<Rightarrow>
          if list_all is_digit k \<and> (cs = [] \<or> c \<noteq> CHR ''0'') \<and> digits_val k < 2 ^ 32 - 1
          then Some (digits_val k)
          else None)"

text \<open>The own properties of a JSON value: entries, elements, code units, \<open>length\<close>.\<close>

fun own_property :: "jsv \<Rightarrow> string \<Rightarrow> jsv option" where
  "own_property (JObj kvs) k = map_of kvs k"
| "own_property (JArr xs) k =
     (if k = ''length'' then Some (JNum (Fin (real (length xs))))
      else
        (case array_index k of
           None \<Rightarrow> None
         | Some i \<Rightarrow> if i < length xs then Some (xs ! i) else None))"
| "own_property (JStr s) k =
     (if k = ''length'' then Some (JNum (Fin (real (length s))))
      else
        (case array_index k of
           None \<Rightarrow> None
         | Some i \<Rightarrow> if i < length s then Some (JStr [s ! i]) else None))"
| "own_property v k = None"

text \<open>
  \<open>cache[address]\<close>: a TypeError on \<open>null\<close>; else the own property, else the inherited
  one, else \<open>undefined\<close>.
\<close>

definition cache_read ::
  "(jsv \<Rightarrow> string \<Rightarrow> builtin option) \<Rightarrow> jsv \<Rightarrow> string \<Rightarrow> error + jsval" where
  "cache_read inh cache k =
     (case cache of
        JUndefined \<Rightarrow> Inl TypeError
      | JNull \<Rightarrow> Inl TypeError
      | _ \<Rightarrow>
          Inr (case own_property cache k of
                 Some v \<Rightarrow> Json v
               | None \<Rightarrow>
                   (case inh cache k of
                      Some b \<Rightarrow> Builtin b
                    | None \<Rightarrow> Json JUndefined)))"

fun obj_set :: "string \<Rightarrow> jsv \<Rightarrow> obj \<Rightarrow> obj" where
  "obj_set k v [] = [(k, v)]"
| "obj_set k v ((k', v') # kvs) =
     (if k = k' then (k, v) # kvs else (k', v') # obj_set k v kvs)"

text \<open>
  \<open>cache[address] = [lat, lng]\<close>, reached after a read that gave a falsy value, so the
  property is the cache's own or is not there. An object gets or replaces the entry. An
  array gets the element (the gap before it filled with holes, which print as \<open>null\<close>),
  refuses the pair as its \<open>length\<close> with a RangeError, and takes any other name as a
  property that \<open>JSON.stringify\<close> leaves out. A string, a number or a boolean takes no
  property: the module is strict code, so the assignment throws a TypeError.
\<close>

definition cache_write :: "jsv \<Rightarrow> string \<Rightarrow> jsv \<Rightarrow> error + jsv" where
  "cache_write cache k v =
     (case cache of
        JObj kvs \<Rightarrow> Inr (JObj (obj_set k v kvs))
      | JArr xs \<Rightarrow>
          if k = ''length'' then Inl RangeError
          else
            (case array_index k of
               None \<Rightarrow> Inr (JArr xs)
             | Some i \<Rightarrow>
                 if i < length xs then Inr (JArr (xs[i := v]))
                 else Inr (JArr (xs @ replicate (i - length xs) JNull @ [v])))
      | _ \<Rightarrow> Inl TypeError)"

text \<open>
  \<open>JSON.parse(JSON.stringify(v))\<close>, which is what the store holds after \<open>setItem\<close>: a
  number that is not finite prints as \<open>null\<close>, an entry that is \<open>undefined\<close> is left out.
\<close>

fun restringify :: "jsv \<Rightarrow> jsv" where
  "restringify JUndefined = JNull"
| "restringify (JNum n) = (if isFinite n then JNum n else JNull)"
| "restringify (JArr xs) = JArr (map restringify xs)"
| "restringify (JObj kvs) =
     JObj (map (\<lambda>kv. (fst kv, restringify (snd kv))) (filter (\<lambda>kv. snd kv \<noteq> JUndefined) kvs))"
| "restringify v = v"

text \<open>The text sent to the service; \<open>encodeURIComponent\<close> is one-to-one and left out.\<close>

definition region_query :: "string \<Rightarrow> string" where
  "region_query address = address @ '', Montgomery County, MD''"

text \<open>The answer of the service to the request for an address made from world \<open>w\<close>.\<close>

definition answer :: "world \<Rightarrow> string \<Rightarrow> response" where
  "answer w address = net w (requests w) (region_query address)"

text \<open>\<open>json?.length\<close> and \<open>json[0]\<close> on the body of the response.\<close>

fun js_length :: "jsv \<Rightarrow> jsv" where
  "js_length (JArr xs) = JNum (Fin (real (length xs)))"
| "js_length (JStr s) = JNum (Fin (real (length s)))"
| "js_length (JObj kvs) = field kvs ''length''"
| "js_length v = JUndefined"

fun js_index0 :: "jsv \<Rightarrow> jsv" where
  "js_index0 (JArr []) = JUndefined"
| "js_index0 (JArr (x # xs)) = x"
| "js_index0 (JStr []) = JUndefined"
| "js_index0 (JStr (c # cs)) = JStr [c]"
| "js_index0 (JObj kvs) = field kvs ''0''"
| "js_index0 v = JUndefined"

text \<open>\<open>json[0].lat\<close> throws a TypeError when \<open>json[0]\<close> is \<open>undefined\<close> or \<open>null\<close>.\<close>

definition first_result :: "jsv \<Rightarrow> error + jsv" where
  "first_result json =
     (case js_index0 json of
        JUndefined \<Rightarrow> Inl TypeError
      | JNull \<Rightarrow> Inl TypeError
      | x \<Rightarrow> Inr x)"

text \<open>The body of the \<open>try\<close> block of \<open>geocode\<close>, for an address that is not empty.\<close>

definition geocode_try :: "world \<Rightarrow> string \<Rightarrow> (error + jsval) \<times> world" where
  "geocode_try w address =
     (case load_cache (store w) of
        Inl e \<Rightarrow> (Inl e, w)
      | Inr cache \<Rightarrow>
          (case cache_read (inherited w) cache address of
             Inl e \<Rightarrow> (Inl e, w)
           | Inr found \<Rightarrow>
               if truthy_val found then (Inr found, w)
               else
                 let w1 = emit (Slept 1100) w;
                     w2 = emit (Fetched (region_query address)) w1
                 in
                 (case answer w address of
                    NetFail \<Rightarrow> (Inl NetworkError, w2)
                  | NotOk \<Rightarrow> (Inr (Json JNull), w2)
                  | BadBody \<Rightarrow> (Inl SyntaxError, w2)
                  | Body json \<Rightarrow>
                      if \<not> truthy (js_length json) then (Inr (Json JNull), w2)
                      else
                        (case first_result json of
                           Inl e \<Rightarrow> (Inl e, w2)
                         | Inr x \<Rightarrow>
                             (case (parseFloat (js_get x ''lat''), parseFloat (js_get x ''lon'')) of
                                (Fin la, Fin lo) \<Rightarrow>
                                  (case cache_write cache address (pair_json (la, lo)) of
                                     Inl e \<Rightarrow> (Inl e, w2)
                                   | Inr cache' \<Rightarrow>
                                       (Inr (Json (pair_json (la, lo))),
                                        w2\<lparr>store := Parsed (restringify cache')\<rparr>))
                              | _ \<Rightarrow> (Inr (Json JNull), w2))))))"

text \<open>
  \<open>geocode\<close>: \<open>null\<close> for an address that is absent or empty, else the \<open>try\<close> block, whose
  \<open>catch\<close> turns whatever was thrown into \<open>null\<close>. What the caller gets is \<open>Inr\<close> of the
  value returned, or \<open>Inl\<close> of an error that was thrown to it.
\<close>

definition geocode :: "world \<Rightarrow> string option \<Rightarrow> (error + jsval) \<times> world" where
  "geocode w address =
     (let w0 = emit (Invoked address) w in
      case address of
        None \<Rightarrow> (Inr (Json JNull), w0)
      | Some a \<Rightarrow>
          if a = [] then (Inr (Json JNull), w0)
          else
            (case geocode_try w0 a of
               (Inl e, w') \<Rightarrow> (Inr (Json JNull), w')
             | (Inr g, w') \<Rightarrow> (Inr g, w')))"

section \<open>The location pipeline\<close>

text \<open>
  \<open>String(v)\<close> as a template literal applies it. The text of a number is a parameter
  \<open>nts\<close> of the model (Number::toString is not part of the program).
\<close>

fun join_comma :: "string list \<Rightarrow> string" where
  "join_comma [] = []"
| "join_comma [s] = s"
| "join_comma (s # t # ss) = s @ '','' @ join_comma (t # ss)"

fun ToString :: "(jsnum \<Rightarrow> string) \<Rightarrow> jsv \<Rightarrow> string" where
  "ToString nts JUndefined = ''undefined''"
| "ToString nts JNull = ''null''"
| "ToString nts (JBool b) = (if b then ''true'' else ''false'')"
| "ToString nts (JNum n) = nts n"
| "ToString nts (JStr s) = s"
| "ToString nts (JArr xs) =
     join_comma (map (\<lambda>x. case x of JUndefined \<Rightarrow> [] | JNull \<Rightarrow> [] | _ \<Rightarrow> ToString nts x) xs)"
| "ToString nts (JObj kvs) = ''[object Object]''"

definition MAX_GEOCODE :: nat where
  "MAX_GEOCODE = 150"

text \<open>Lines 155 to 160: the address text made from the address source.\<close>

definition address_text :: "(jsnum \<Rightarrow> string) \<Rightarrow> jsv \<Rightarrow> string option" where
  "address_text nts addrSource =
     (if typeof_string addrSource then Some (ToString nts addrSource)
      else if typeof_object addrSource \<and> truthy (js_get addrSource ''address'') then
        Some (ToString nts (js_get addrSource ''address'') @ '' ''
              @ ToString nts (js_or (js_get addrSource ''city'') (JStr [])) @ '' ''
              @ ToString nts (js_or (js_get addrSource ''state'') (JStr [])) @ '' ''
              @ ToString nts (js_or (js_get addrSource ''zip'') (JStr [])))
      else None)"

record point =
  lat :: jsv
  lng :: jsv
  rec :: jsv
  photo :: jsv
  name :: jsv
  species :: jsv
  address :: jsv

record run_state =
  env :: world
  geocoded :: nat
  out :: "point list"

text \<open>
  \<open>const [lat, lng] = coords\<close> (line 171): the first two elements of an array, or code
  units of a string, \<open>undefined\<close> where there is none; a TypeError for a value that cannot
  be iterated.
\<close>

fun element :: "jsv list \<Rightarrow> nat \<Rightarrow> jsv" where
  "element [] n = JUndefined"
| "element (x # xs) 0 = x"
| "element (x # xs) (Suc n) = element xs n"

definition destructure :: "jsval \<Rightarrow> error + (jsv \<times> jsv)" where
  "destructure coords =
     (case coords of
        Json (JArr xs) \<Rightarrow> Inr (element xs 0, element xs 1)
      | Json (JStr s) \<Rightarrow> Inr (element (map (\<lambda>c. JStr [c]) s) 0, element (map (\<lambda>c. JStr [c]) s) 1)
      | Builtin (EmptyIterable n) \<Rightarrow> Inr (JUndefined, JUndefined)
      | _ \<Rightarrow> Inl TypeError)"

text \<open>Lines 172 to 186: the located point pushed for a record with coordinates.\<close>

definition make_point :: "jsv \<Rightarrow> jsv \<Rightarrow> jsv \<Rightarrow> point" where
  "make_point la lo r =
     \<lparr> lat = la,
       lng = lo,
       rec = r,
       photo = (case js_get r ''photo_links'' of JArr xs \<Rightarrow> js_index0 (JArr xs) | v \<Rightarrow> v),
       name = js_or (js_get r ''name'') (js_or (js_get r ''animalid'') (JStr ''Unknown'')),
       species = js_or (js_get r ''species'') (JStr ''PET''),
       address =
         (if typeof_string (js_get r ''intake_location'') then js_get r ''intake_location''
          else js_or (js_get_opt (js_get r ''intake_location'') ''human_address'')
                 (js_or (js_get r ''found_location'') (JStr []))) \<rparr>"

definition push_point :: "jsv \<Rightarrow> jsv \<Rightarrow> jsv \<Rightarrow> run_state \<Rightarrow> run_state" where
  "push_point la lo r st = st\<lparr>out := out st @ [make_point la lo r]\<rparr>"

text \<open>
  Lines 153 to 168, entered when the record has no embedded coordinate: the value of
  \<open>coords\<close> after them (still \<open>null\<close>, or what \<open>geocode\<close> returned when that is truthy),
  and the state.
\<close>

definition address_fallback ::
  "(jsnum \<Rightarrow> string) \<Rightarrow> run_state \<Rightarrow> jsv \<Rightarrow> error + (jsval \<times> run_state)" where
  "address_fallback nts st r =
     (let addrSource = bestAddress r in
      if truthy addrSource \<and> geocoded st < MAX_GEOCODE then
        (case address_text nts addrSource of
           None \<Rightarrow> Inr (Json JNull, st)
         | Some addr \<Rightarrow>
             if addr = [] then Inr (Json JNull, st)
             else
               (case geocode (env st) (Some addr) of
                  (Inl e, w') \<Rightarrow> Inl e
                | (Inr g, w') \<Rightarrow>
                    if truthy_val g then Inr (g, st\<lparr>env := w', geocoded := geocoded st + 1\<rparr>)
                    else Inr (Json JNull, st\<lparr>env := w'\<rparr>)))
      else Inr (Json JNull, st))"

text \<open>Lines 151 to 169: the value of \<open>coords\<close> when the loop reaches \<open>if (coords)\<close>.\<close>

definition resolve_coords ::
  "(jsnum \<Rightarrow> string) \<Rightarrow> run_state \<Rightarrow> jsv \<Rightarrow> error + (jsval \<times> run_state)" where
  "resolve_coords nts st r =
     (case getCoordsFromRecord r of
        Inl e \<Rightarrow> Inl e
      | Inr coords \<Rightarrow>
          if truthy coords then Inr (Json coords, st)
          else address_fallback nts st r)"

text \<open>One turn of the loop over the records (lines 150 to 188).\<close>

definition loop_body :: "(jsnum \<Rightarrow> string) \<Rightarrow> run_state \<Rightarrow> jsv \<Rightarrow> error + run_state" where
  "loop_body nts st r =
     (case resolve_coords nts st r of
        Inl e \<Rightarrow> Inl e
      | Inr (coords, st') \<Rightarrow>
          if truthy_val coords then
            (case destructure coords of
               Inl e \<Rightarrow> Inl e
             | Inr (la, lo) \<Rightarrow> Inr (push_point la lo r st'))
          else Inr st')"

fun run_loop :: "(jsnum \<Rightarrow> string) \<Rightarrow> run_state \<Rightarrow> jsv list \<Rightarrow> error + run_state" where
  "run_loop nts st [] = Inr st"
| "run_loop nts st (r # rs) =
     (case loop_body nts st r of
        Inl e \<Rightarrow> Inl e
      | Inr st' \<Rightarrow> run_loop nts st' rs)"

text \<open>
  One run of the effect over the records it was given (lines 141 to 192): \<open>Inr\<close> of the
  state whose \<open>out\<close> is published by \<open>setPoints\<close>, or \<open>Inl\<close> of the error that ended the
  run before it published anything. The flag \<open>cancelled\<close>, which keeps a superseded run
  from publishing its list, is not modelled.
\<close>

definition run :: "(jsnum \<Rightarrow> string) \<Rightarrow> world \<Rightarrow> jsv list \<Rightarrow> error + run_state" where
  "run nts w records =
     (if records = [] then Inr \<lparr>env = w, geocoded = 0, out = []\<rparr>
      else run_loop nts \<lparr>env = w, geocoded = 0, out = []\<rparr> records)"

section \<open>The proximity ranker\<close>

text \<open>
  The arithmetic of doubles is a parameter of the model: the four operations, the square
  \<open>x ** 2\<close>, the functions of \<open>Math\<close> that \<open>haversineKm\<close> calls, \<open>Math.PI\<close>, and the
  conversion to a number of a value that is not one (the coordinates of a located point
  are whatever line 171 took out of \<open>coords\<close>).
\<close>

record arith =
  fl_add :: "jsnum \<Rightarrow> jsnum \<Rightarrow> jsnum"
  fl_sub :: "jsnum \<Rightarrow> jsnum \<Rightarrow> jsnum"
  fl_mul :: "jsnum \<Rightarrow> jsnum \<Rightarrow> jsnum"
  fl_div :: "jsnum \<Rightarrow> jsnum \<Rightarrow> jsnum"
  fl_square :: "jsnum \<Rightarrow> jsnum"
  m_sin :: "jsnum \<Rightarrow> jsnum"
  m_cos :: "jsnum \<Rightarrow> jsnum"
  m_asin :: "jsnum \<Rightarrow> jsnum"
  m_sqrt :: "jsnum \<Rightarrow> jsnum"
  m_pi :: jsnum
  to_number :: "jsv \<Rightarrow> jsnum"

definition ToNumber :: "arith \<Rightarrow> jsv \<Rightarrow> jsnum" where
  "ToNumber ar v = (case v of JNum n \<Rightarrow> n | _ \<Rightarrow> to_number ar v)"

definition toRad :: "arith \<Rightarrow> jsnum \<Rightarrow> jsnum" where
  "toRad ar d = fl_div ar (fl_mul ar d (m_pi ar)) (Fin 180)"

definition haversineKm :: "arith \<Rightarrow> jsv \<times> jsv \<Rightarrow> jsv \<times> jsv \<Rightarrow> jsnum" where
  "haversineKm ar a b =
     (let R = Fin 6371;
          dLat = toRad ar (fl_sub ar (ToNumber ar (fst b)) (ToNumber ar (fst a)));
          dLon = toRad ar (fl_sub ar (ToNumber ar (snd b)) (ToNumber ar (snd a)));
          lat1 = toRad ar (ToNumber ar (fst a));
          lat2 = toRad ar (ToNumber ar (fst b));
          h = fl_add ar
                (fl_square ar (m_sin ar (fl_div ar dLat (Fin 2))))
                (fl_mul ar (fl_mul ar (m_cos ar lat1) (m_cos ar lat2))
                           (fl_square ar (m_sin ar (fl_div ar dLon (Fin 2)))))
      in fl_mul ar (fl_mul ar (Fin 2) R) (m_asin ar (m_sqrt ar h)))"

record ranked = point +
  dist :: jsnum

definition with_dist :: "arith \<Rightarrow> jsnum \<times> jsnum \<Rightarrow> point \<Rightarrow> ranked" where
  "with_dist ar userPos p =
     point.extend p
       \<lparr>dist = haversineKm ar (JNum (fst userPos), JNum (snd userPos)) (lat p, lng p)\<rparr>"

text \<open>
  \<open>Array.prototype.sort\<close> with a comparison function: a comparison that gives NaN counts
  as 0, and the sort is stable (ECMAScript 2019). Here it is an insertion from the right,
  an element going in front of the first one that the comparison does not put before it.
  Every stable sort gives this order when the comparison is consistent; when it is not,
  as with a NaN among the distances, the order is the implementation's.
\<close>

fun sort_compare :: "jsnum \<Rightarrow> jsnum" where
  "sort_compare NaN = Fin 0"
| "sort_compare v = v"

fun not_positive :: "jsnum \<Rightarrow> bool" where
  "not_positive (Fin r) = (r \<le> 0)"
| "not_positive NegInf = True"
| "not_positive v = False"

fun insert_by :: "('a \<Rightarrow> 'a \<Rightarrow> jsnum) \<Rightarrow> 'a \<Rightarrow> 'a list \<Rightarrow> 'a list" where
  "insert_by cmp x [] = [x]"
| "insert_by cmp x (y # ys) =
     (if not_positive (sort_compare (cmp x y)) then x # y # ys else y # insert_by cmp x ys)"

definition array_sort :: "('a \<Rightarrow> 'a \<Rightarrow> jsnum) \<Rightarrow> 'a list \<Rightarrow> 'a list" where
  "array_sort cmp xs = foldr (insert_by cmp) xs []"

definition nearest :: "arith \<Rightarrow> (jsnum \<times> jsnum) option \<Rightarrow> point list \<Rightarrow> ranked list" where
  "nearest ar userPos points =
     (case userPos of
        None \<Rightarrow> []
      | Some u \<Rightarrow>
          if points = [] then []
          else take 25 (array_sort (\<lambda>a b. fl_sub ar (dist a) (dist b))
                          (map (with_dist ar u) points)))"

section \<open>Notions used to state the properties\<close>


text \<open>
  The world after \<open>geocode\<close>, called with address \<open>a\<close>, has waited and sent its request.
\<close>

definition requested :: "world \<Rightarrow> string \<Rightarrow> world" where
  "requested w a =
     emit (Fetched (region_query a)) (emit (Slept 1100) (emit (Invoked (Some a)) w))"

text \<open>
  In the words of the specification: a field holds a valid embedded coordinate when it
  is an object whose latitude and longitude both parse to finite numbers, and a record
  carries the one of the first such field in the priority order of the fields.
\<close>

fun valid_embedded :: "jsv \<Rightarrow> coord option" where
  "valid_embedded (JObj kvs) =
     (case (parseFloat (field kvs ''latitude''), parseFloat (field kvs ''longitude'')) of
        (Fin la, Fin lo) \<Rightarrow> Some (la, lo)
      | _ \<Rightarrow> None)"
| "valid_embedded v = None"

definition first_valid_embedded :: "obj \<Rightarrow> coord option" where
  "first_valid_embedded r =
     (case valid_embedded (field r ''intake_location'') of
        Some c \<Rightarrow> Some c
      | None \<Rightarrow>
          (case valid_embedded (field r ''location'') of
             Some c \<Rightarrow> Some c
           | None \<Rightarrow> valid_embedded (field r ''found_location'')))"

text \<open>
  What the loop resolved, record by record, as long as it ran: each record with the value
  of \<open>coords\<close> it reached \<open>if (coords)\<close> with, and the located points of the records whose
  value is truthy and was taken apart.
\<close>

fun resolutions ::
  "(jsnum \<Rightarrow> string) \<Rightarrow> run_state \<Rightarrow> jsv list \<Rightarrow> (jsv \<times> jsval) list" where
  "resolutions nts st [] = []"
| "resolutions nts st (r # rs) =
     (case resolve_coords nts st r of
        Inl e \<Rightarrow> []
      | Inr (coords, st') \<Rightarrow>
          (r, coords) #
          (case loop_body nts st r of
             Inl e \<Rightarrow> []
           | Inr st'' \<Rightarrow> resolutions nts st'' rs))"

fun located :: "(jsv \<times> jsval) list \<Rightarrow> point list" where
  "located [] = []"
| "located ((r, coords) # xs) =
     (if truthy_val coords then
        (case destructure coords of
           Inl e \<Rightarrow> located xs
         | Inr (la, lo) \<Rightarrow> make_point la lo r # located xs)
      else located xs)"

text \<open>
  \<open>a <= b\<close> on numbers, and the distances of a list of ranked points being comparable:
  each is finite, and the comparison \<open>a.dist - b.dist\<close> of the sort is not positive
  exactly when \<open>a.dist <= b.dist\<close>. The subtraction of doubles has this property on
  finite numbers.
\<close>

fun js_le :: "jsnum \<Rightarrow> jsnum \<Rightarrow> bool" where
  "js_le NaN b = False"
| "js_le a NaN = False"
| "js_le NegInf b = True"
| "js_le a PosInf = True"
| "js_le (Fin x) (Fin y) = (x \<le> y)"
| "js_le a b = False"

definition comparable :: "arith \<Rightarrow> ranked list \<Rightarrow> bool" where
  "comparable ar ws =
     list_all (\<lambda>a. isFinite (dist a) \<and>
        list_all (\<lambda>b. not_positive (sort_compare (fl_sub ar (dist a) (dist b)))
                       = js_le (dist a) (dist b)) ws) ws"

fun fin_val :: "jsnum \<Rightarrow> real" where
  "fin_val (Fin r) = r"
| "fin_val n = 0"

text \<open>
  Example worlds. What a plain object inherits from \<open>Object.prototype\<close>; the example
  leaves out what arrays, strings, numbers and booleans inherit, and stores none of them.
  A service that gives the same answer to every request, a world with that service in
  which nothing has happened yet, and a body with one result, as the service sends it.
\<close>

definition object_prototype_names :: "string list" where
  "object_prototype_names =
     [''constructor'', ''__defineGetter__'', ''__defineSetter__'', ''hasOwnProperty'',
      ''__lookupGetter__'', ''__lookupSetter__'', ''isPrototypeOf'', ''propertyIsEnumerable'',
      ''toString'', ''valueOf'', ''__proto__'', ''toLocaleString'']"

definition es_inherited :: "jsv \<Rightarrow> string \<Rightarrow> builtin option" where
  "es_inherited v k =
     (case v of
        JObj kvs \<Rightarrow> if k \<in> set object_prototype_names then Some (NotIterable k) else None
      | _ \<Rightarrow> None)"

definition service_always :: "response \<Rightarrow> nat \<Rightarrow> string \<Rightarrow> response" where
  "service_always resp n q = resp"

definition fresh_world :: "cache_store \<Rightarrow> response \<Rightarrow> world" where
  "fresh_world s resp =
     \<lparr>store = s, inherited = es_inherited, net = service_always resp, events = []\<rparr>"

definition one_result :: "string \<Rightarrow> string \<Rightarrow> jsv" where
  "one_result la lo = JArr [JObj [(''lat'', JStr la), (''lon'', JStr lo)]]"

text \<open>A record of the feed with nothing but a \<open>location\<close>.\<close>

definition located_record :: "string \<Rightarrow> string \<Rightarrow> jsv" where
  "located_record la lo =
     JObj [(''location'', JObj [(''latitude'', JStr la), (''longitude'', JStr lo)])]"

text \<open>
  An example arithmetic: exact on finite numbers, with the overflow, the infinities and
  the NaN of doubles (signed zeros and the rounding of finite results apart). Its
  conversion to a number is the one of \<open>null\<close>, of the booleans and of \<open>undefined\<close>; the
  conversion of a string, an array or an object goes through its text and is not part of
  the example, whose coordinates are numbers.
\<close>

fun ex_neg :: "jsnum \<Rightarrow> jsnum" where
  "ex_neg (Fin r) = Fin (- r)"
| "ex_neg PosInf = NegInf"
| "ex_neg NegInf = PosInf"
| "ex_neg NaN = NaN"

fun ex_add :: "jsnum \<Rightarrow> jsnum \<Rightarrow> jsnum" where
  "ex_add NaN b = NaN"
| "ex_add a NaN = NaN"
| "ex_add (Fin x) (Fin y) = round_overflow (x + y)"
| "ex_add PosInf NegInf = NaN"
| "ex_add NegInf PosInf = NaN"
| "ex_add PosInf b = PosInf"
| "ex_add NegInf b = NegInf"
| "ex_add a b = b"

definition ex_sub :: "jsnum \<Rightarrow> jsnum \<Rightarrow> jsnum" where
  "ex_sub a b = ex_add a (ex_neg b)"

definition signed_inf :: "bool \<Rightarrow> jsnum" where
  "signed_inf positive = (if positive then PosInf else NegInf)"

fun ex_mul :: "jsnum \<Rightarrow> jsnum \<Rightarrow> jsnum" where
  "ex_mul NaN b = NaN"
| "ex_mul a NaN = NaN"
| "ex_mul (Fin x) (Fin y) = round_overflow (x * y)"
| "ex_mul (Fin x) PosInf = (if x = 0 then NaN else signed_inf (0 < x))"
| "ex_mul (Fin x) NegInf = (if x = 0 then NaN else signed_inf (x < 0))"
| "ex_mul PosInf (Fin y) = (if y = 0 then NaN else signed_inf (0 < y))"
| "ex_mul NegInf (Fin y) = (if y = 0 then NaN else signed_inf (y < 0))"
| "ex_mul PosInf PosInf = PosInf"
| "ex_mul NegInf NegInf = PosInf"
| "ex_mul a b = NegInf"

fun ex_div :: "jsnum \<Rightarrow> jsnum \<Rightarrow> jsnum" where
  "ex_div NaN b = NaN"
| "ex_div a NaN = NaN"
| "ex_div (Fin x) (Fin y) =
     (if y = 0 then (if x = 0 then NaN else signed_inf (0 < x)) else round_overflow (x / y))"
| "ex_div (Fin x) b = Fin 0"
| "ex_div PosInf (Fin y) = signed_inf (0 \<le> y)"
| "ex_div NegInf (Fin y) = signed_inf (y < 0)"
| "ex_div a b = NaN"

fun ex_sin :: "jsnum \<Rightarrow> jsnum" where
  "ex_sin (Fin x) = Fin (sin x)"
| "ex_sin a = NaN"

fun ex_cos :: "jsnum \<Rightarrow> jsnum" where
  "ex_cos (Fin x) = Fin (cos x)"
| "ex_cos a = NaN"

fun ex_asin :: "jsnum \<Rightarrow> jsnum" where
  "ex_asin (Fin x) = (if - 1 \<le> x \<and> x \<le> 1 then Fin (arcsin x) else NaN)"
| "ex_asin a = NaN"

fun ex_sqrt :: "jsnum \<Rightarrow> jsnum" where
  "ex_sqrt (Fin x) = (if 0 \<le> x then Fin (sqrt x) else NaN)"
| "ex_sqrt PosInf = PosInf"
| "ex_sqrt a = NaN"

fun ex_to_number :: "jsv \<Rightarrow> jsnum" where
  "ex_to_number JNull = Fin 0"
| "ex_to_number (JBool b) = Fin (if b then 1 else 0)"
| "ex_to_number (JNum n) = n"
| "ex_to_number v = NaN"

definition ex_arith :: arith where
  "ex_arith =
     \<lparr> fl_add = ex_add, fl_sub = ex_sub, fl_mul = ex_mul, fl_div = ex_div,
       fl_square = (\<lambda>a. ex_mul a a),
       m_sin = ex_sin, m_cos = ex_cos, m_asin = ex_asin, m_sqrt = ex_sqrt,
       m_pi = Fin pi,
       to_number = ex_to_number \<rparr>"

section \<open>Lemmas\<close>

subsection \<open>One call of geocode\<close>

lemma events_emit: "events (emit e w) = events w @ [e]"
  by (simp add: emit_def)

lemma store_emit: "store (emit e w) = store w"
  by (simp add: emit_def)

lemma net_emit: "net (emit e w) = net w"
  by (simp add: emit_def)

lemma inherited_emit: "inherited (emit e w) = inherited w"
  by (simp add: emit_def)

lemma requests_emit: "requests (emit e w) = (if is_fetch e then Suc (requests w) else requests w)"
  by (simp add: requests_def emit_def)

lemma invocations_emit:
  "invocations (emit e w) = (if is_invocation e then Suc (invocations w) else invocations w)"
  by (simp add: invocations_def emit_def)

lemma invocations_store: "invocations (w\<lparr>store := s\<rparr>) = invocations w"
  by (simp add: invocations_def)

lemma answer_emit_Invoked: "answer (emit (Invoked x) w) a = answer w a"
  by (simp add: answer_def net_emit requests_emit)

lemma geocode_hit:
  assumes "a \<noteq> []" and "load_cache (store w) = Inr cache"
    and "cache_read (inherited w) cache a = Inr v" and "truthy_val v"
  shows "geocode w (Some a) = (Inr v, emit (Invoked (Some a)) w)"
  using assms by (simp add: geocode_def geocode_try_def Let_def store_emit inherited_emit)

lemma geocode_read_error:
  assumes "load_cache (store w) = Inr cache" and "cache_read (inherited w) cache a = Inl e"
  shows "geocode w (Some a) = (Inr (Json JNull), emit (Invoked (Some a)) w)"
  using assms by (simp add: geocode_def geocode_try_def Let_def store_emit inherited_emit)

lemma geocode_miss:
  assumes "a \<noteq> []" and "load_cache (store w) = Inr cache"
    and "cache_read (inherited w) cache a = Inr v" and "\<not> truthy_val v"
  shows "geocode w (Some a) =
     (case answer w a of
        NetFail \<Rightarrow> (Inr (Json JNull), requested w a)
      | NotOk \<Rightarrow> (Inr (Json JNull), requested w a)
      | BadBody \<Rightarrow> (Inr (Json JNull), requested w a)
      | Body json \<Rightarrow>
          if \<not> truthy (js_length json) then (Inr (Json JNull), requested w a)
          else
            (case first_result json of
               Inl e \<Rightarrow> (Inr (Json JNull), requested w a)
             | Inr x \<Rightarrow>
                 (case (parseFloat (js_get x ''lat''), parseFloat (js_get x ''lon'')) of
                    (Fin la, Fin lo) \<Rightarrow>
                      (case cache_write cache a (pair_json (la, lo)) of
                         Inl e \<Rightarrow> (Inr (Json JNull), requested w a)
                       | Inr cache' \<Rightarrow>
                           (Inr (Json (pair_json (la, lo))),
                            (requested w a)\<lparr>store := Parsed (restringify cache')\<rparr>))
                  | _ \<Rightarrow> (Inr (Json JNull), requested w a))))"
  using assms
  by (simp add: geocode_def geocode_try_def Let_def store_emit inherited_emit
      answer_emit_Invoked requested_def
      split: response.splits sum.splits jsnum.splits)

lemma geocode_unparseable:
  "store w = Unparseable \<Longrightarrow> geocode w addr = (Inr (Json JNull), emit (Invoked addr) w)"
  by (simp add: geocode_def geocode_try_def load_cache_def Let_def store_emit split: option.splits)

lemma geocode_empty:
  "addr = None \<or> addr = Some [] \<Longrightarrow> geocode w addr = (Inr (Json JNull), emit (Invoked addr) w)"
  by (auto simp: geocode_def Let_def)

lemma geocode_no_raise: "fst (geocode w addr) \<noteq> Inl e"
  by (auto simp: geocode_def Let_def split: option.splits prod.splits sum.splits)


lemma invocations_geocode: "invocations (snd (geocode w addr)) = Suc (invocations w)"
  by (simp add: geocode_def geocode_try_def Let_def invocations_emit invocations_store
      split: option.splits sum.splits response.splits jsnum.splits prod.splits)

text \<open>
  A call of \<open>geocode\<close> with an address that is not empty is one of four: the store does
  not parse, the read of \<open>cache[address]\<close> throws, the read is a hit, the read is a miss.
\<close>

lemma geocode_cases:
  assumes "addr = Some a" and "a \<noteq> []"
  obtains (unparseable) "load_cache (store w) = Inl SyntaxError" "store w = Unparseable"
  | (read_error) cache e where "load_cache (store w) = Inr cache"
      "cache_read (inherited w) cache a = Inl e"
  | (hit) cache v where "load_cache (store w) = Inr cache"
      "cache_read (inherited w) cache a = Inr v" "truthy_val v"
  | (miss) cache v where "load_cache (store w) = Inr cache"
      "cache_read (inherited w) cache a = Inr v" "\<not> truthy_val v"
proof (cases "load_cache (store w)")
  case (Inl e)
  then have "store w = Unparseable" "e = SyntaxError"
    by (auto simp: load_cache_def split: cache_store.splits)
  with Inl show ?thesis using unparseable by simp
next
  case (Inr cache)
  show ?thesis
  proof (cases "cache_read (inherited w) cache a")
    case (Inl e)
    with Inr show ?thesis using read_error by blast
  next
    case r: (Inr v)
    with Inr show ?thesis using hit miss by (cases "truthy_val v") blast+
  qed
qed

lemma cache_read_own:
  "own_property cache a = Some v \<Longrightarrow> cache \<noteq> JNull \<Longrightarrow> cache \<noteq> JUndefined \<Longrightarrow>
   cache_read inh cache a = Inr (Json v)"
  by (cases cache) (simp_all add: cache_read_def)

lemma geocode_miss_fst:
  assumes "a \<noteq> []" and "load_cache (store w) = Inr cache"
    and "cache_read (inherited w) cache a = Inr v" and "\<not> truthy_val v"
  shows "fst (geocode w (Some a)) =
     (case answer w a of
        NetFail \<Rightarrow> Inr (Json JNull)
      | NotOk \<Rightarrow> Inr (Json JNull)
      | BadBody \<Rightarrow> Inr (Json JNull)
      | Body json \<Rightarrow>
          if \<not> truthy (js_length json) then Inr (Json JNull)
          else
            (case first_result json of
               Inl e \<Rightarrow> Inr (Json JNull)
             | Inr x \<Rightarrow>
                 (case (parseFloat (js_get x ''lat''), parseFloat (js_get x ''lon'')) of
                    (Fin la, Fin lo) \<Rightarrow>
                      (case cache_write cache a (pair_json (la, lo)) of
                         Inl e \<Rightarrow> Inr (Json JNull)
                       | Inr cache' \<Rightarrow> Inr (Json (pair_json (la, lo))))
                  | _ \<Rightarrow> Inr (Json JNull))))"
  unfolding geocode_miss [OF assms]
  by (simp split: response.splits sum.splits jsnum.splits)

lemma truthy_pair_json: "truthy (pair_json c)"
  by (simp add: pair_json_def)

lemma geocode_truthy_cases:
  assumes "fst (geocode w addr) = Inr g" and "truthy_val g"
  shows "\<exists>a cache. addr = Some a \<and> a \<noteq> [] \<and> load_cache (store w) = Inr cache \<and>
          ((cache_read (inherited w) cache a = Inr g \<and> snd (geocode w addr) = emit (Invoked addr) w)
           \<or> (\<exists>v json x la lo cache'.
                 cache_read (inherited w) cache a = Inr v \<and> \<not> truthy_val v
                 \<and> answer w a = Body json \<and> truthy (js_length json)
                 \<and> first_result json = Inr x
                 \<and> parseFloat (js_get x ''lat'') = Fin la
                 \<and> parseFloat (js_get x ''lon'') = Fin lo
                 \<and> cache_write cache a (pair_json (la, lo)) = Inr cache'
                 \<and> g = Json (pair_json (la, lo))
                 \<and> store (snd (geocode w addr)) = Parsed (restringify cache')))"
proof -
  from assms obtain a where a: "addr = Some a" "a \<noteq> []"
    by (cases addr) (auto simp: geocode_def Let_def split: if_splits)
  from a show ?thesis
  proof (cases rule: geocode_cases [where w = w])
    case unparseable
    with assms show ?thesis by (auto simp: geocode_unparseable)
  next
    case (read_error cache e)
    with assms a show ?thesis by (auto simp: geocode_read_error)
  next
    case (hit cache v)
    with assms a show ?thesis
      by (auto simp: geocode_hit [OF a(2) hit])
  next
    case (miss cache v)
    from assms show ?thesis
      unfolding a geocode_miss [OF a(2) miss]
      using a(2) miss
      by (auto split: response.splits sum.splits jsnum.splits if_splits)
  qed
qed

lemma geocode_null_store:
  assumes "fst (geocode w addr) = Inr g" and "\<not> truthy_val g"
  shows "g = Json JNull \<and> store (snd (geocode w addr)) = store w"
proof (cases "addr = None \<or> addr = Some []")
  case True
  with assms show ?thesis by (auto simp: geocode_empty [OF True] store_emit)
next
  case False
  then obtain a where a: "addr = Some a" "a \<noteq> []" by auto
  from a show ?thesis
  proof (cases rule: geocode_cases [where w = w])
    case unparseable
    with assms show ?thesis by (auto simp: geocode_unparseable store_emit)
  next
    case (read_error cache e)
    with assms a show ?thesis by (auto simp: geocode_read_error store_emit)
  next
    case (hit cache v)
    with assms a show ?thesis
      by (simp add: geocode_hit [OF a(2) hit])
  next
    case (miss cache v)
    from assms show ?thesis
      unfolding a geocode_miss [OF a(2) miss]
      by (auto simp: requested_def store_emit truthy_pair_json
          split: response.splits sum.splits jsnum.splits if_splits)
  qed
qed

lemma coords_scan_step:
  "coords_scan r (k # ks) =
     (case valid_embedded (js_get r k) of Some c \<Rightarrow> Some c | None \<Rightarrow> coords_scan r ks)"
proof (cases "js_get r k")
  case (JObj kvs)
  then show ?thesis
    by (auto simp: Let_def field_def split: option.splits jsnum.splits)
qed (simp_all add: Let_def)

lemma getCoords_first_valid:
  "getCoordsFromRecord (JObj kvs)
     = Inr (case first_valid_embedded kvs of None \<Rightarrow> JNull | Some c \<Rightarrow> pair_json c)"
  unfolding getCoordsFromRecord_def candidates_def first_valid_embedded_def coords_scan_step
  by (simp split: option.splits)


lemma geocode_stores_finite_pair:
  assumes "a \<noteq> []" and "load_cache (store w) = Inr (JObj kvs)"
    and "cache_read (inherited w) (JObj kvs) a = Inr v" and "\<not> truthy_val v"
    and "answer w a = Body json" and "truthy (js_length json)" and "first_result json = Inr x"
    and "parseFloat (js_get x ''lat'') = Fin la" and "parseFloat (js_get x ''lon'') = Fin lo"
  shows "geocode w (Some a) =
           (Inr (Json (pair_json (la, lo))),
            (requested w a)\<lparr>store := Parsed (restringify (JObj (obj_set a (pair_json (la, lo)) kvs)))\<rparr>)"
  unfolding geocode_miss [OF assms(1-4)] using assms(5-)
  by (simp add: cache_write_def)

lemma geocode_discards_non_finite:
  assumes "a \<noteq> []" and "load_cache (store w) = Inr cache"
    and "cache_read (inherited w) cache a = Inr v" and "\<not> truthy_val v"
    and "answer w a = Body json" and "first_result json = Inr x"
    and "\<not> (isFinite (parseFloat (js_get x ''lat'')) \<and> isFinite (parseFloat (js_get x ''lon'')))"
  shows "geocode w (Some a) = (Inr (Json JNull), requested w a)"
  unfolding geocode_miss [OF assms(1-4)] using assms(5-)
  by (auto split: jsnum.splits)

subsection \<open>The geocoder in the example worlds\<close>

lemmas parse_defs = parseFloat_str_def is_ws_def unsigned_literal_def is_digit_def
      digits_val_def scale10_def exponent_part_def round_overflow_def Let_def

lemma answer_fresh: "answer (fresh_world s resp) a = resp"
  by (simp add: answer_def fresh_world_def service_always_def)

lemma store_fresh: "store (fresh_world s resp) = s"
  by (simp add: fresh_world_def)

lemma inherited_fresh: "inherited (fresh_world s resp) = es_inherited"
  by (simp add: fresh_world_def)

lemma first_one_result:
  "first_result (one_result la lo) = Inr (JObj [(''lat'', JStr la), (''lon'', JStr lo)])"
  by (simp add: first_result_def one_result_def)

lemma truthy_one_result: "truthy (js_length (one_result la lo))"
  by (simp add: one_result_def)

lemma parse_392: "parseFloat_str (''39.2'') = Fin (196 / 5)"
  by (simp add: parse_defs)

lemma parse_m773: "parseFloat_str (''-77.3'') = Fin (- 773 / 10)"
  by (simp add: parse_defs)

lemma parse_abc: "parseFloat_str (''abc'') = NaN"
  by (simp add: parse_defs)



lemma read_main_st: "cache_read es_inherited (JObj []) ''100 Main St'' = Inr (Json JUndefined)"
  by (simp add: cache_read_def es_inherited_def object_prototype_names_def)

lemma read_constructor:
  "cache_read es_inherited (JObj []) ''constructor'' = Inr (Builtin (NotIterable ''constructor''))"
  by (simp add: cache_read_def es_inherited_def object_prototype_names_def)

lemma load_missing: "load_cache Missing = Inr (JObj [])"
  by (simp add: load_cache_def)

lemma geocode_fresh_missing:
  assumes "parseFloat_str la = Fin x" and "parseFloat_str lo = Fin y"
  shows "geocode (fresh_world Missing (Body (one_result la lo))) (Some ''100 Main St'')
     = (Inr (Json (pair_json (x, y))),
        (requested (fresh_world Missing (Body (one_result la lo))) ''100 Main St'')
          \<lparr>store := Parsed (JObj [(''100 Main St'', pair_json (x, y))])\<rparr>)"
proof -
  let ?w = "fresh_world Missing (Body (one_result la lo))"
  have "geocode ?w (Some ''100 Main St'') =
           (Inr (Json (pair_json (x, y))),
            (requested ?w ''100 Main St'')\<lparr>store :=
                 Parsed (restringify (JObj (obj_set ''100 Main St'' (pair_json (x, y)) [])))\<rparr>)"
    by (rule geocode_stores_finite_pair [where v = "Json JUndefined" and json = "one_result la lo"
          and x = "JObj [(''lat'', JStr la), (''lon'', JStr lo)]"])
       (simp_all add: store_fresh inherited_fresh load_missing read_main_st answer_fresh
         truthy_one_result first_one_result field_def assms)
  then show ?thesis by (simp add: pair_json_def)
qed

lemma geocode_fresh_missing_nan:
  "geocode (fresh_world Missing (Body (one_result ''abc'' ''-77.3''))) (Some ''100 Main St'')
     = (Inr (Json JNull),
        requested (fresh_world Missing (Body (one_result ''abc'' ''-77.3''))) ''100 Main St'')"
  by (rule geocode_discards_non_finite [where v = "Json JUndefined"
        and json = "one_result ''abc'' ''-77.3''" and cache = "JObj []"
        and x = "JObj [(''lat'', JStr ''abc''), (''lon'', JStr ''-77.3'')]"])
     (simp_all add: store_fresh inherited_fresh load_missing read_main_st answer_fresh
         first_one_result field_def parse_abc)

lemma geocode_fresh_empty_object:
  "fst (geocode (fresh_world (Parsed (JObj [])) (Body (one_result ''39.2'' ''-77.3'')))
         (Some ''100 Main St'')) = Inr (Json (pair_json (196 / 5, - 773 / 10)))"
proof -
  let ?w = "fresh_world (Parsed (JObj [])) (Body (one_result ''39.2'' ''-77.3''))"
  have "geocode ?w (Some ''100 Main St'') =
           (Inr (Json (pair_json (196 / 5, - 773 / 10))),
            (requested ?w ''100 Main St'')\<lparr>store :=
                 Parsed (restringify (JObj (obj_set ''100 Main St'' (pair_json (196 / 5, - 773 / 10)) [])))\<rparr>)"
    by (rule geocode_stores_finite_pair [where v = "Json JUndefined"
          and json = "one_result ''39.2'' ''-77.3''"
          and x = "JObj [(''lat'', JStr ''39.2''), (''lon'', JStr ''-77.3'')]"])
       (simp_all add: store_fresh inherited_fresh load_cache_def read_main_st answer_fresh
         truthy_one_result first_one_result field_def parse_392 parse_m773)
  then show ?thesis by simp
qed

lemma miss_fresh:
  "Some ''100 Main St'' = Some ''100 Main St'' \<and> ''100 Main St'' \<noteq> []
   \<and> load_cache (store (fresh_world Missing resp)) = Inr (JObj [])
   \<and> cache_read (inherited (fresh_world Missing resp)) (JObj []) ''100 Main St'' = Inr (Json JUndefined)
   \<and> \<not> truthy_val (Json JUndefined)"
  by (simp add: store_fresh inherited_fresh load_missing read_main_st)

subsection \<open>The pipeline\<close>



lemma destructure_pair:
  "destructure (Json (pair_json c)) = Inr (JNum (Fin (fst c)), JNum (Fin (snd c)))"
  by (simp add: destructure_def pair_json_def)


lemma address_fallback_effect:
  assumes "address_fallback nts st r = Inr (c, st')"
  shows "out st' = out st"
    and "geocoded st' = (if truthy_val c then Suc (geocoded st) else geocoded st)"
    and "truthy_val c \<Longrightarrow> geocoded st < MAX_GEOCODE"
    and "invocations (env st') \<le> Suc (invocations (env st))"
    and "truthy_val c \<Longrightarrow> invocations (env st') = Suc (invocations (env st))"
    and "invocations (env st) \<le> invocations (env st')"
proof -
  have g: "invocations w' = Suc (invocations (env st))"
    if "geocode (env st) addr = (x, w')" for addr x w'
    using invocations_geocode [of "env st" addr] that by simp
  from assms show "out st' = out st"
    by (auto simp: address_fallback_def Let_def
        split: if_splits option.splits prod.splits sum.splits)
  from assms show "geocoded st' = (if truthy_val c then Suc (geocoded st) else geocoded st)"
    by (auto simp: address_fallback_def Let_def
        split: if_splits option.splits prod.splits sum.splits)
  from assms show "truthy_val c \<Longrightarrow> geocoded st < MAX_GEOCODE"
    by (auto simp: address_fallback_def Let_def
        split: if_splits option.splits prod.splits sum.splits)
  from assms g show "invocations (env st') \<le> Suc (invocations (env st))"
    by (auto simp: address_fallback_def Let_def
        split: if_splits option.splits prod.splits sum.splits)
  from assms g show "truthy_val c \<Longrightarrow> invocations (env st') = Suc (invocations (env st))"
    by (auto simp: address_fallback_def Let_def
        split: if_splits option.splits prod.splits sum.splits)
  from assms g show "invocations (env st) \<le> invocations (env st')"
    by (fastforce simp: address_fallback_def Let_def
        split: if_splits option.splits prod.splits sum.splits)
qed



lemma resolve_coords_out:
  assumes "resolve_coords nts st r = Inr (c, st')"
  shows "out st' = out st"
proof (cases "getCoordsFromRecord r")
  case (Inl e)
  with assms show ?thesis by (simp add: resolve_coords_def)
next
  case (Inr c0)
  show ?thesis
  proof (cases "truthy c0")
    case True
    with assms Inr show ?thesis by (simp add: resolve_coords_def)
  next
    case False
    with assms Inr have "address_fallback nts st r = Inr (c, st')"
      by (simp add: resolve_coords_def)
    then show ?thesis by (rule address_fallback_effect(1))
  qed
qed

lemma rec_make_point: "rec (make_point la lo r) = r"
  by (simp add: make_point_def)




lemma run_run_loop: "run nts w records = run_loop nts \<lparr>env = w, geocoded = 0, out = []\<rparr> records"
  by (simp add: run_def)

lemma getCoords_address_only: "getCoordsFromRecord (JObj [(''address'', JStr a)]) = Inr JNull"
  by (simp add: getCoordsFromRecord_def candidates_def field_def)

lemma bestAddress_address_only:
  "a \<noteq> [] \<Longrightarrow> bestAddress (JObj [(''address'', JStr a)]) = JStr a"
  by (simp add: bestAddress_def field_def js_or_def)


lemma address_fallback_address_only:
  assumes "a \<noteq> []" and "geocoded st < MAX_GEOCODE" and "geocode (env st) (Some a) = (Inr g, w')"
  shows "address_fallback nts st (JObj [(''address'', JStr a)]) =
     (if truthy_val g then Inr (g, st\<lparr>env := w', geocoded := geocoded st + 1\<rparr>)
      else Inr (Json JNull, st\<lparr>env := w'\<rparr>))"
  using assms
  by (simp add: address_fallback_def bestAddress_address_only address_text_def)




lemma run_loop_resolutions:
  "run_loop nts st rs = Inr st' \<Longrightarrow>
     out st' = out st @ located (resolutions nts st rs)
     \<and> map fst (resolutions nts st rs) = rs"
proof (induction rs arbitrary: st)
  case Nil
  then show ?case by simp
next
  case (Cons r rs)
  from Cons.prems obtain st1 where b: "loop_body nts st r = Inr st1"
    and l: "run_loop nts st1 rs = Inr st'"
    by (auto split: sum.splits)
  from b obtain c st0 where rc: "resolve_coords nts st r = Inr (c, st0)"
    by (auto simp: loop_body_def split: sum.splits)
  have o: "out st0 = out st"
    using rc by (rule resolve_coords_out)
  have s: "out st1 = out st @ located [(r, c)]"
    using b rc o
    by (auto simp: loop_body_def push_point_def split: if_splits sum.splits)
  from Cons.IH [OF l] b rc s show ?case
    by (auto split: if_splits sum.splits)
qed

lemma rec_located: "subseq (map rec (located xs)) (map fst xs)"
  by (induction xs rule: located.induct) (auto simp: rec_make_point split: sum.splits)

lemma completed_run_lists_resolved_in_order:
  assumes "run nts w records = Inr st"
  shows "out st = located (resolutions nts \<lparr>env = w, geocoded = 0, out = []\<rparr> records)
     \<and> map fst (resolutions nts \<lparr>env = w, geocoded = 0, out = []\<rparr> records) = records
     \<and> subseq (map rec (out st)) records
     \<and> length (out st) \<le> length records"
proof -
  let ?st0 = "\<lparr>env = w, geocoded = 0, out = []\<rparr>"
  from assms have "run_loop nts ?st0 records = Inr st"
    by (simp add: run_run_loop)
  from run_loop_resolutions [OF this]
  have o: "out st = located (resolutions nts ?st0 records)"
    and m: "map fst (resolutions nts ?st0 records) = records"
    by simp_all
  have s: "subseq (map rec (out st)) records"
    using rec_located [of "resolutions nts ?st0 records"] by (simp add: o m)
  then have "length (map rec (out st)) \<le> length records"
    by (rule list_emb_length)
  with o m s show ?thesis by simp
qed

subsection \<open>The ranker\<close>

lemma length_insert_by: "length (insert_by cmp x xs) = Suc (length xs)"
  by (induction xs) simp_all

lemma length_array_sort: "length (array_sort cmp xs) = length xs"
  by (induction xs) (simp_all add: array_sort_def length_insert_by)

lemma insert_by_insort_key:
  assumes "\<forall>y \<in> set ys. not_positive (sort_compare (cmp x y)) = (f x \<le> f y)"
  shows "insert_by cmp x ys = insort_key f x ys"
  using assms by (induction ys) simp_all

lemma array_sort_sort_key:
  assumes "\<forall>a \<in> set xs. \<forall>b \<in> set xs. not_positive (sort_compare (cmp a b)) = (f a \<le> f b)"
  shows "array_sort cmp xs = sort_key f xs"
  using assms
proof (induction xs)
  case Nil
  then show ?case by (simp add: array_sort_def)
next
  case (Cons x xs)
  then have ih: "array_sort cmp xs = sort_key f xs" by simp
  have "insert_by cmp x (sort_key f xs) = insort_key f x (sort_key f xs)"
    using Cons.prems by (intro insert_by_insort_key) simp
  with ih show ?case
    by (simp add: array_sort_def sort_key_def)
qed

lemma js_le_fin: "isFinite a \<Longrightarrow> isFinite b \<Longrightarrow> js_le a b = (fin_val a \<le> fin_val b)"
  by (cases a; cases b) simp_all

lemma fin_val_eq: "isFinite a \<Longrightarrow> (a = d) = (isFinite d \<and> fin_val a = fin_val d)"
  by (cases a; cases d) auto

lemma comparable_iff:
  "comparable ar ws \<longleftrightarrow>
     (\<forall>a \<in> set ws. isFinite (dist a) \<and>
        (\<forall>b \<in> set ws. not_positive (sort_compare (fl_sub ar (dist a) (dist b)))
                          = js_le (dist a) (dist b)))"
  by (simp add: comparable_def list_all_iff)

lemma nearest_comparable:
  assumes "comparable ar (map (with_dist ar u) points)"
  shows "nearest ar (Some u) points
     = take 25 (sort_key (\<lambda>r. fin_val (dist r)) (map (with_dist ar u) points))"
proof -
  let ?ws = "map (with_dist ar u) points"
  have "\<forall>a \<in> set ?ws. \<forall>b \<in> set ?ws.
      not_positive (sort_compare (fl_sub ar (dist a) (dist b))) = (fin_val (dist a) \<le> fin_val (dist b))"
    using assms unfolding comparable_iff by (metis js_le_fin)
  then have "array_sort (\<lambda>a b. fl_sub ar (dist a) (dist b)) ?ws = sort_key (\<lambda>r. fin_val (dist r)) ?ws"
    by (rule array_sort_sort_key)
  then show ?thesis
    by (simp add: nearest_def)
qed

subsection \<open>The ranker in the example arithmetic\<close>

lemma round_small:
  assumes "\<bar>r\<bar> \<le> 10 ^ 9"
  shows "round_overflow r = Fin r"
proof -
  have "(10 :: real) ^ 9 < 2 ^ 1024 - 2 ^ 970"
    by simp
  with assms have "\<not> 2 ^ 1024 - 2 ^ 970 \<le> r" "\<not> r \<le> - (2 ^ 1024 - 2 ^ 970)"
    by linarith+
  then show ?thesis
    unfolding round_overflow_def by (simp only: if_False)
qed

lemma ex_fields:
  "fl_add ex_arith = ex_add" "fl_sub ex_arith = ex_sub" "fl_mul ex_arith = ex_mul"
  "fl_div ex_arith = ex_div" "fl_square ex_arith = (\<lambda>a. ex_mul a a)"
  "m_sin ex_arith = ex_sin" "m_cos ex_arith = ex_cos" "m_asin ex_arith = ex_asin"
  "m_sqrt ex_arith = ex_sqrt" "m_pi ex_arith = Fin pi" "to_number ex_arith = ex_to_number"
  by (simp_all add: ex_arith_def)

lemma dist_with_dist:
  "dist (with_dist ar u p) = haversineKm ar (JNum (fst u), JNum (snd u)) (lat p, lng p)"
  by (simp add: with_dist_def point.defs)

lemma lat_make_point: "lat (make_point la lo r) = la"
  by (simp add: make_point_def)

lemma lng_make_point: "lng (make_point la lo r) = lo"
  by (simp add: make_point_def)

lemma ex_sub_fin: "ex_sub (Fin x) (Fin y) = round_overflow (x - y)"
  by (simp add: ex_sub_def)

lemma ex_sub_nan: "ex_sub NaN b = NaN" "ex_sub (Fin x) NaN = NaN"
  by (simp_all add: ex_sub_def)

lemma toRad_0: "toRad ex_arith (Fin 0) = Fin 0"
  by (simp add: toRad_def ex_fields round_small)

lemma toRad_180: "toRad ex_arith (Fin 180) = Fin pi"
proof -
  have "\<bar>180 * pi\<bar> \<le> 10 ^ 9" "\<bar>pi\<bar> \<le> 10 ^ 9"
    using pi_gt_zero pi_less_4 by simp_all
  then show ?thesis
    by (simp add: toRad_def ex_fields round_small)
qed

lemma toRad_huge: "toRad ex_arith (Fin (10 ^ 308)) = PosInf"
proof -
  have "(2 :: real) ^ 1024 - 2 ^ 970 \<le> 10 ^ 308 * 2"
    by simp
  also have "\<dots> \<le> 10 ^ 308 * pi"
    using pi_ge_two by (intro mult_left_mono) simp_all
  finally have "round_overflow (10 ^ 308 * pi) = PosInf"
    by (simp add: round_overflow_def)
  then show ?thesis
    by (simp add: toRad_def ex_fields signed_inf_def)
qed

lemma haversine_here:
  "haversineKm ex_arith (JNum (Fin 0), JNum (Fin 0)) (JNum (Fin 0), JNum (Fin 0)) = Fin 0"
  by (simp add: haversineKm_def ToNumber_def ex_fields ex_sub_fin round_small toRad_0)

lemma haversine_antipode:
  "haversineKm ex_arith (JNum (Fin 0), JNum (Fin 0)) (JNum (Fin 0), JNum (Fin 180))
     = Fin (6371 * pi)"
proof -
  have b: "\<bar>pi / 2\<bar> \<le> 10 ^ 9" "\<bar>6371 * pi\<bar> \<le> 10 ^ 9"
    using pi_gt_zero pi_less_4 by simp_all
  have r: "round_overflow (pi / 2) = Fin (pi / 2)"
    "round_overflow (6371 * pi) = Fin (6371 * pi)"
    by (rule round_small [OF b(1)], rule round_small [OF b(2)])
  show ?thesis
    by (simp add: haversineKm_def ToNumber_def ex_fields ex_sub_fin round_small toRad_0
        toRad_180 r)
qed

lemma haversine_huge:
  "haversineKm ex_arith (JNum (Fin 0), JNum (Fin 0)) (JNum (Fin (10 ^ 308)), JNum (Fin 0)) = NaN"
proof -
  define big :: real where "big = 10 ^ 308"
  have s: "round_overflow big = Fin big"
    by (simp add: round_overflow_def big_def)
  have t: "toRad ex_arith (Fin big) = PosInf"
    unfolding big_def by (rule toRad_huge)
  have "haversineKm ex_arith (JNum (Fin 0), JNum (Fin 0)) (JNum (Fin big), JNum (Fin 0)) = NaN"
    by (simp add: haversineKm_def ToNumber_def ex_fields ex_sub_fin round_small toRad_0
        s t signed_inf_def)
  then show ?thesis
    unfolding big_def .
qed

lemma comparable_ex_arith:
  "comparable ex_arith ws = list_all (\<lambda>a. isFinite (dist a)) ws"
proof -
  have "not_positive (sort_compare (ex_sub a b)) = js_le a b"
    if "isFinite a" "isFinite b" for a b
    using that
    by (cases a; cases b) (auto simp: ex_sub_fin round_overflow_def)
  then show ?thesis
    by (auto simp: comparable_def ex_fields list_all_iff)
qed

lemma loop_body_located_record:
  assumes "parseFloat_str la = Fin x" and "parseFloat_str lo = Fin y"
  shows "loop_body nts st (located_record la lo)
     = Inr (st\<lparr>out := out st @ [make_point (JNum (Fin x)) (JNum (Fin y)) (located_record la lo)]\<rparr>)"
  using assms
  by (simp add: located_record_def getCoords_first_valid first_valid_embedded_def field_def
      loop_body_def resolve_coords_def truthy_pair_json destructure_pair push_point_def)

lemma parse_0: "parseFloat_str ''0'' = Fin 0"
  by (simp add: parse_defs)

lemma parse_180: "parseFloat_str ''180'' = Fin 180"
  by (simp add: parse_defs)

lemma parse_1e308: "parseFloat_str ''1e308'' = Fin (10 ^ 308)"
  by (simp add: parse_defs)

lemma pi_not_le: "\<not> pi \<le> 0"
  using pi_gt_zero by linarith

lemma dist_ranked:
  "dist (with_dist ar (Fin 0, Fin 0) (make_point la lo r))
     = haversineKm ar (JNum (Fin 0), JNum (Fin 0)) (la, lo)"
  by (simp add: dist_with_dist lat_make_point lng_make_point)

section \<open>The properties of the specification\<close>




text \<open>
  Claim C2, as the code has it. With the store missing \<open>geocode\<close> does what it does with
  an empty cache: same result, same trace, same cache afterwards. With a store that does
  not parse it returns absent at once, without the pacing delay and without a request,
  and leaves the store as it is. It raises in neither case.
\<close>

theorem geocode_missing_or_unparseable_store:
  "fst (geocode (w\<lparr>store := Missing\<rparr>) addr) = fst (geocode (w\<lparr>store := Parsed (JObj [])\<rparr>) addr)
   \<and> events (snd (geocode (w\<lparr>store := Missing\<rparr>) addr))
       = events (snd (geocode (w\<lparr>store := Parsed (JObj [])\<rparr>) addr))
   \<and> load_cache (store (snd (geocode (w\<lparr>store := Missing\<rparr>) addr)))
       = load_cache (store (snd (geocode (w\<lparr>store := Parsed (JObj [])\<rparr>) addr)))
   \<and> geocode (w\<lparr>store := Unparseable\<rparr>) addr
       = (Inr (Json JNull), emit (Invoked addr) (w\<lparr>store := Unparseable\<rparr>))
   \<and> (\<forall>e. fst (geocode w addr) \<noteq> Inl e)"
proof -
  let ?wm = "w\<lparr>store := Missing\<rparr>" and ?we = "w\<lparr>store := Parsed (JObj [])\<rparr>"
  have same:
    "fst (geocode ?wm addr) = fst (geocode ?we addr)
     \<and> events (snd (geocode ?wm addr)) = events (snd (geocode ?we addr))
     \<and> load_cache (store (snd (geocode ?wm addr))) = load_cache (store (snd (geocode ?we addr)))"
  proof (cases "addr = None \<or> addr = Some []")
    case True
    then show ?thesis
      by (simp add: geocode_empty [OF True] events_emit store_emit load_cache_def)
  next
    case False
    then obtain a where a: "addr = Some a" "a \<noteq> []" by auto
    have m: "load_cache (store ?wm) = Inr (JObj [])" "load_cache (store ?we) = Inr (JObj [])"
      by (simp_all add: load_cache_def)
    have inh: "inherited ?wm = inherited ?we" by simp
    have ans: "answer ?wm a = answer ?we a"
      by (simp add: answer_def requests_def)
    have ev: "events (requested ?wm a) = events (requested ?we a)"
      "events (emit (Invoked (Some a)) ?wm) = events (emit (Invoked (Some a)) ?we)"
      by (simp_all add: requested_def events_emit)
    have st: "load_cache (store (requested ?wm a)) = load_cache (store (requested ?we a))"
      "load_cache (store (emit (Invoked (Some a)) ?wm)) = load_cache (store (emit (Invoked (Some a)) ?we))"
      by (simp_all add: requested_def store_emit load_cache_def)
    obtain v where r: "cache_read (inherited ?wm) (JObj []) a = Inr v"
      by (simp add: cache_read_def)
    then have r': "cache_read (inherited ?we) (JObj []) a = Inr v"
      by simp
    show ?thesis
    proof (cases "truthy_val v")
      case True
      show ?thesis
        unfolding a geocode_hit [OF a(2) m(1) r True] geocode_hit [OF a(2) m(2) r' True]
        using ev st by simp
    next
      case False
      show ?thesis
        unfolding a geocode_miss [OF a(2) m(1) r False] geocode_miss [OF a(2) m(2) r' False] ans
        using ev st
        by (simp add: load_cache_def split: response.splits sum.splits jsnum.splits)
    qed
  qed
  have unp: "geocode (w\<lparr>store := Unparseable\<rparr>) addr
       = (Inr (Json JNull), emit (Invoked addr) (w\<lparr>store := Unparseable\<rparr>))"
    by (rule geocode_unparseable) simp
  from same unp geocode_no_raise show ?thesis by blast
qed

text \<open>
  Claim C2 as stated fails: with an unparseable store and a service that would answer
  with a coordinate, \<open>geocode\<close> returns absent and sends no request, where with an empty
  cache it returns the coordinate.
\<close>

theorem geocode_unparseable_store_counterexample:
  "fst (geocode (fresh_world Unparseable (Body (one_result ''39.2'' ''-77.3''))) (Some ''100 Main St''))
     = Inr (Json JNull)
   \<and> events (snd (geocode (fresh_world Unparseable (Body (one_result ''39.2'' ''-77.3'')))
         (Some ''100 Main St''))) = [Invoked (Some ''100 Main St'')]
   \<and> fst (geocode (fresh_world (Parsed (JObj [])) (Body (one_result ''39.2'' ''-77.3'')))
         (Some ''100 Main St'')) = Inr (Json (pair_json (196 / 5, - 773 / 10)))"
  by (simp add: geocode_fresh_empty_object)
     (simp add: geocode_unparseable store_fresh events_emit, simp add: fresh_world_def)




text \<open>
  Claim C4, as the code has it. The list \<open>nearest\<close> returns is never longer than 25 nor
  than the list of points. When the distances are comparable (each is finite and the sign
  of \<open>a.dist - b.dist\<close> agrees with their order, as it does for finite doubles) the list
  is in non-decreasing order of distance and, for every distance, its points at that
  distance are the first of the input's points at that distance, in the input's order.
\<close>

theorem nearest_sorted_stable_bounded:
  "length (nearest ar (Some u) points) \<le> min 25 (length points)
   \<and> (comparable ar (map (with_dist ar u) points) \<longrightarrow>
        sorted_wrt (\<lambda>a b. js_le (dist a) (dist b)) (nearest ar (Some u) points)
      \<and> (\<forall>d. prefix (filter (\<lambda>r. dist r = d) (nearest ar (Some u) points))
                     (filter (\<lambda>r. dist r = d) (map (with_dist ar u) points))))"
proof -
  let ?ws = "map (with_dist ar u) points"
  let ?key = "\<lambda>r. fin_val (dist r)"
  have len: "length (nearest ar (Some u) points) \<le> min 25 (length points)"
    by (simp add: nearest_def length_array_sort)
  have ord: "sorted_wrt (\<lambda>a b. js_le (dist a) (dist b)) (nearest ar (Some u) points)
      \<and> (\<forall>d. prefix (filter (\<lambda>r. dist r = d) (nearest ar (Some u) points))
                     (filter (\<lambda>r. dist r = d) ?ws))"
    if c: "comparable ar ?ws"
  proof -
    note n = nearest_comparable [OF c]
    have fin: "isFinite (dist a)" if "a \<in> set ?ws" for a
      using c that unfolding comparable_iff by blast
    have sub: "set (take 25 (sort_key ?key ?ws)) \<subseteq> set ?ws"
      using set_take_subset [of 25 "sort_key ?key ?ws"] by simp
    have "sorted (map ?key (sort_key ?key ?ws))"
      by (rule sorted_sort_key)
    then have "sorted (map ?key (take 25 (sort_key ?key ?ws)))"
      unfolding take_map [symmetric] by (rule sorted_wrt_take)
    then have "sorted_wrt (\<lambda>a b. ?key a \<le> ?key b) (take 25 (sort_key ?key ?ws))"
      by (simp add: sorted_map)
    moreover have "js_le (dist x) (dist y)"
      if "x \<in> set (take 25 (sort_key ?key ?ws))" "y \<in> set (take 25 (sort_key ?key ?ws))"
         "?key x \<le> ?key y" for x y
    proof -
      from that sub have "isFinite (dist x)" "isFinite (dist y)"
        by (blast intro: fin)+
      with that(3) show ?thesis by (simp add: js_le_fin)
    qed
    ultimately have srt: "sorted_wrt (\<lambda>a b. js_le (dist a) (dist b)) (take 25 (sort_key ?key ?ws))"
      by (rule sorted_wrt_mono_rel [rotated])
    have stable: "prefix (filter (\<lambda>r. dist r = d) (take 25 (sort_key ?key ?ws)))
                  (filter (\<lambda>r. dist r = d) ?ws)" for d
    proof -
      have p: "prefix (filter (\<lambda>r. dist r = d) (take 25 (sort_key ?key ?ws)))
                 (filter (\<lambda>r. dist r = d) (sort_key ?key ?ws))"
        by (rule filter_mono_prefix) (rule take_is_prefix)
      have "filter (\<lambda>r. dist r = d) xs = filter (\<lambda>r. isFinite d \<and> ?key r = fin_val d) xs"
        if "set xs \<subseteq> set ?ws" for xs
        using that fin by (intro filter_cong refl) (auto simp: fin_val_eq)
      then have e: "filter (\<lambda>r. dist r = d) (sort_key ?key ?ws) = filter (\<lambda>r. dist r = d) ?ws"
        by (cases "isFinite d") (simp_all add: sort_key_stable)
      from p e show ?thesis by simp
    qed
    from srt stable show ?thesis unfolding n by blast
  qed
  from len ord show ?thesis by blast
qed

theorem nearest_sorted_stable_bounded_witness:
  "comparable ex_arith
     (map (with_dist ex_arith (Fin 0, Fin 0))
        [make_point (JNum (Fin 0)) (JNum (Fin 180)) (located_record ''0'' ''180''),
         make_point (JNum (Fin 0)) (JNum (Fin 0)) (located_record ''0'' ''0'')])
   \<and> map dist (nearest ex_arith (Some (Fin 0, Fin 0))
        [make_point (JNum (Fin 0)) (JNum (Fin 180)) (located_record ''0'' ''180''),
         make_point (JNum (Fin 0)) (JNum (Fin 0)) (located_record ''0'' ''0'')])
       = [Fin 0, Fin (6371 * pi)]
   \<and> sorted_wrt (\<lambda>a b. js_le (dist a) (dist b))
       (nearest ex_arith (Some (Fin 0, Fin 0))
        [make_point (JNum (Fin 0)) (JNum (Fin 180)) (located_record ''0'' ''180''),
         make_point (JNum (Fin 0)) (JNum (Fin 0)) (located_record ''0'' ''0'')])
   \<and> length (nearest ex_arith (Some (Fin 0, Fin 0))
        [make_point (JNum (Fin 0)) (JNum (Fin 180)) (located_record ''0'' ''180''),
         make_point (JNum (Fin 0)) (JNum (Fin 0)) (located_record ''0'' ''0'')]) \<le> 2"
proof -
  let ?u = "(Fin 0, Fin 0)"
  let ?ps = "[make_point (JNum (Fin 0)) (JNum (Fin 180)) (located_record ''0'' ''180''),
              make_point (JNum (Fin 0)) (JNum (Fin 0)) (located_record ''0'' ''0'')]"
  have c: "comparable ex_arith (map (with_dist ex_arith ?u) ?ps)"
    by (simp add: comparable_ex_arith dist_ranked haversine_here haversine_antipode)
  have r: "round_overflow (6371 * pi) = Fin (6371 * pi)"
    using pi_gt_zero pi_less_4 by (intro round_small) simp
  have d: "map dist (nearest ex_arith (Some ?u) ?ps) = [Fin 0, Fin (6371 * pi)]"
    by (simp add: nearest_def array_sort_def ex_fields dist_ranked haversine_here
        haversine_antipode ex_sub_fin r pi_not_le)
  from nearest_sorted_stable_bounded [of ex_arith ?u ?ps] c
  have "sorted_wrt (\<lambda>a b. js_le (dist a) (dist b)) (nearest ex_arith (Some ?u) ?ps)"
    and "length (nearest ex_arith (Some ?u) ?ps) \<le> min 25 (length ?ps)"
    by blast+
  with c d show ?thesis
    by (simp add: pi_not_le)
qed

text \<open>
  Claim C4 as stated fails: the pipeline locates a record with latitude \<open>"1e308"\<close>, a
  finite number, as no range is checked. For this point \<open>toRad\<close> overflows and the
  distance is NaN, the comparison \<open>a.dist - b.dist\<close> with it is NaN and orders nothing,
  and the list comes out with the point at 20015 km in front of the point at 0 km. With
  the two last points alone the list starts with the NaN.
\<close>

theorem nearest_unordered_counterexample:
  "run (\<lambda>n. []) (fresh_world Missing NetFail)
     [located_record ''0'' ''180'', located_record ''1e308'' ''0'', located_record ''0'' ''0'']
     = Inr \<lparr>env = fresh_world Missing NetFail, geocoded = 0,
            out = [make_point (JNum (Fin 0)) (JNum (Fin 180)) (located_record ''0'' ''180''),
                   make_point (JNum (Fin (10 ^ 308))) (JNum (Fin 0)) (located_record ''1e308'' ''0''),
                   make_point (JNum (Fin 0)) (JNum (Fin 0)) (located_record ''0'' ''0'')]\<rparr>
   \<and> map dist (nearest ex_arith (Some (Fin 0, Fin 0))
        [make_point (JNum (Fin 0)) (JNum (Fin 180)) (located_record ''0'' ''180''),
         make_point (JNum (Fin (10 ^ 308))) (JNum (Fin 0)) (located_record ''1e308'' ''0''),
         make_point (JNum (Fin 0)) (JNum (Fin 0)) (located_record ''0'' ''0'')])
       = [Fin (6371 * pi), NaN, Fin 0]
   \<and> \<not> js_le (Fin (6371 * pi)) (Fin 0)
   \<and> \<not> sorted_wrt (\<lambda>a b. js_le (dist a) (dist b))
        (nearest ex_arith (Some (Fin 0, Fin 0))
          [make_point (JNum (Fin 0)) (JNum (Fin 180)) (located_record ''0'' ''180''),
           make_point (JNum (Fin (10 ^ 308))) (JNum (Fin 0)) (located_record ''1e308'' ''0''),
           make_point (JNum (Fin 0)) (JNum (Fin 0)) (located_record ''0'' ''0'')])
   \<and> map dist (nearest ex_arith (Some (Fin 0, Fin 0))
        [make_point (JNum (Fin (10 ^ 308))) (JNum (Fin 0)) (located_record ''1e308'' ''0''),
         make_point (JNum (Fin 0)) (JNum (Fin 0)) (located_record ''0'' ''0'')])
       = [NaN, Fin 0]
   \<and> \<not> js_le NaN (Fin 0)"
proof -
  define big :: real where "big = 10 ^ 308"
  let ?u = "(Fin 0, Fin 0)"
  let ?w = "fresh_world Missing NetFail"
  let ?pa = "make_point (JNum (Fin 0)) (JNum (Fin 180)) (located_record ''0'' ''180'')"
  let ?pf = "make_point (JNum (Fin big)) (JNum (Fin 0)) (located_record ''1e308'' ''0'')"
  let ?ph = "make_point (JNum (Fin 0)) (JNum (Fin 0)) (located_record ''0'' ''0'')"
  have p: "parseFloat_str ''1e308'' = Fin big"
    unfolding big_def by (rule parse_1e308)
  have h: "haversineKm ex_arith (JNum (Fin 0), JNum (Fin 0)) (JNum (Fin big), JNum (Fin 0)) = NaN"
    unfolding big_def by (rule haversine_huge)
  have run: "run (\<lambda>n. []) ?w
      [located_record ''0'' ''180'', located_record ''1e308'' ''0'', located_record ''0'' ''0'']
      = Inr \<lparr>env = ?w, geocoded = 0, out = [?pa, ?pf, ?ph]\<rparr>"
    by (simp add: run_def loop_body_located_record [OF parse_0 parse_180]
        loop_body_located_record [OF p parse_0] loop_body_located_record [OF parse_0 parse_0])
  have r: "round_overflow (6371 * pi) = Fin (6371 * pi)"
    using pi_gt_zero pi_less_4 by (intro round_small) simp
  have d3: "map dist (nearest ex_arith (Some ?u) [?pa, ?pf, ?ph]) = [Fin (6371 * pi), NaN, Fin 0]"
    by (simp add: nearest_def array_sort_def ex_fields dist_ranked haversine_here
        haversine_antipode h ex_sub_fin ex_sub_nan r pi_not_le)
  have d2: "map dist (nearest ex_arith (Some ?u) [?pf, ?ph]) = [NaN, Fin 0]"
    by (simp add: nearest_def array_sort_def ex_fields dist_ranked haversine_here
        h ex_sub_fin ex_sub_nan r)
  have n: "\<not> js_le (Fin (6371 * pi)) (Fin 0)"
    by (simp add: pi_not_le)
  have "sorted_wrt js_le (map dist (nearest ex_arith (Some ?u) [?pa, ?pf, ?ph]))
        = sorted_wrt (\<lambda>a b. js_le (dist a) (dist b)) (nearest ex_arith (Some ?u) [?pa, ?pf, ?ph])"
    by (simp add: sorted_wrt_map)
  with d3 have s: "\<not> sorted_wrt (\<lambda>a b. js_le (dist a) (dist b))
       (nearest ex_arith (Some ?u) [?pa, ?pf, ?ph])"
    by simp
  from run d3 n s d2 show ?thesis
    unfolding big_def by (simp add: pi_not_le)
qed



text \<open>
  Claim C6. For an address that is not empty and has an entry in the cache, \<open>geocode\<close>
  returns the cached value, and the only thing that happened is the call itself: the
  trace gets no pacing delay and no request, and the store is as it was. The entry is
  truthy, as every coordinate is, being an array; a stored \<open>null\<close>, \<open>0\<close>, \<open>false\<close> or
  empty string is no coordinate, and line 67 takes it for no entry. (For the empty
  address \<open>geocode\<close> returns absent before it looks at the cache; it never writes an
  entry under that key.)
\<close>

theorem geocode_cache_hit_no_delay:
  assumes "store w = Parsed (JObj kvs)" and "map_of kvs a = Some v" and "truthy v"
    and "a \<noteq> []"
  shows "geocode w (Some a) = (Inr (Json v), emit (Invoked (Some a)) w)"
proof -
  have "load_cache (store w) = Inr (JObj kvs)"
    using assms(1) by (simp add: load_cache_def)
  moreover have "cache_read (inherited w) (JObj kvs) a = Inr (Json v)"
    using assms(2) by (simp add: cache_read_def)
  ultimately show ?thesis
    using assms(3,4) by (intro geocode_hit) simp_all
qed

theorem geocode_cache_hit_no_delay_witness:
  "geocode (fresh_world (Parsed (JObj [(''100 Main St'', pair_json (196 / 5, - 773 / 10))])) NetFail)
      (Some ''100 Main St'')
   = (Inr (Json (pair_json (196 / 5, - 773 / 10))),
      emit (Invoked (Some ''100 Main St''))
        (fresh_world (Parsed (JObj [(''100 Main St'', pair_json (196 / 5, - 773 / 10))])) NetFail))"
  using geocode_cache_hit_no_delay
    [of "fresh_world (Parsed (JObj [(''100 Main St'', pair_json (196 / 5, - 773 / 10))])) NetFail"
        "[(''100 Main St'', pair_json (196 / 5, - 773 / 10))]" "''100 Main St''"
        "pair_json (196 / 5, - 773 / 10)"]
  by (simp add: store_fresh truthy_pair_json)

text \<open>
  Claim C7. \<open>geocode\<close> never raises. It returns absent for an address that is absent or
  empty. On a miss, \<open>cache[address]\<close> having been read and found falsy, it returns absent
  when the request fails, when the body is not JSON, when the response is not ok, when
  the body has no result, and when one of the two parsed numbers is not finite. What it
  returns is absent or truthy, and a truthy value is what \<open>cache[address]\<close> holds (the
  immediate return of claim C6) or the pair of finite numbers parsed from the first
  result.
\<close>

theorem geocode_absent_on_failure_never_raises:
  "(\<forall>e. fst (geocode w addr) \<noteq> Inl e)
   \<and> (addr = None \<or> addr = Some [] \<longrightarrow> fst (geocode w addr) = Inr (Json JNull))
   \<and> (\<forall>a cache v. addr = Some a \<and> a \<noteq> [] \<and> load_cache (store w) = Inr cache
          \<and> cache_read (inherited w) cache a = Inr v \<and> \<not> truthy_val v \<longrightarrow>
        (answer w a = NetFail \<longrightarrow> fst (geocode w addr) = Inr (Json JNull))
      \<and> (answer w a = BadBody \<longrightarrow> fst (geocode w addr) = Inr (Json JNull))
      \<and> (answer w a = NotOk \<longrightarrow> fst (geocode w addr) = Inr (Json JNull))
      \<and> (\<forall>json. answer w a = Body json \<and> \<not> truthy (js_length json) \<longrightarrow>
            fst (geocode w addr) = Inr (Json JNull))
      \<and> (\<forall>json x. answer w a = Body json \<and> first_result json = Inr x
            \<and> \<not> (isFinite (parseFloat (js_get x ''lat''))
                  \<and> isFinite (parseFloat (js_get x ''lon''))) \<longrightarrow>
            fst (geocode w addr) = Inr (Json JNull)))
   \<and> (\<forall>g. fst (geocode w addr) = Inr g \<longrightarrow> g = Json JNull \<or> truthy_val g)
   \<and> (\<forall>g. fst (geocode w addr) = Inr g \<and> truthy_val g \<longrightarrow>
        (\<exists>a cache. addr = Some a \<and> a \<noteq> [] \<and> load_cache (store w) = Inr cache \<and>
          (cache_read (inherited w) cache a = Inr g
           \<or> (\<exists>v json x la lo.
                 cache_read (inherited w) cache a = Inr v \<and> \<not> truthy_val v
                 \<and> answer w a = Body json \<and> first_result json = Inr x
                 \<and> parseFloat (js_get x ''lat'') = Fin la
                 \<and> parseFloat (js_get x ''lon'') = Fin lo
                 \<and> g = Json (pair_json (la, lo))))))"
proof -
  have raise: "\<forall>e. fst (geocode w addr) \<noteq> Inl e"
    using geocode_no_raise by blast
  have empty: "addr = None \<or> addr = Some [] \<longrightarrow> fst (geocode w addr) = Inr (Json JNull)"
    by (auto simp: geocode_empty)
  have miss: "(answer w a = NetFail \<longrightarrow> fst (geocode w addr) = Inr (Json JNull))
      \<and> (answer w a = BadBody \<longrightarrow> fst (geocode w addr) = Inr (Json JNull))
      \<and> (answer w a = NotOk \<longrightarrow> fst (geocode w addr) = Inr (Json JNull))
      \<and> (\<forall>json. answer w a = Body json \<and> \<not> truthy (js_length json) \<longrightarrow>
            fst (geocode w addr) = Inr (Json JNull))
      \<and> (\<forall>json x. answer w a = Body json \<and> first_result json = Inr x
            \<and> \<not> (isFinite (parseFloat (js_get x ''lat''))
                  \<and> isFinite (parseFloat (js_get x ''lon''))) \<longrightarrow>
            fst (geocode w addr) = Inr (Json JNull))"
    if "addr = Some a \<and> a \<noteq> [] \<and> load_cache (store w) = Inr cache
          \<and> cache_read (inherited w) cache a = Inr v \<and> \<not> truthy_val v"
    for a cache v
  proof -
    from that have a: "addr = Some a" "a \<noteq> []" "load_cache (store w) = Inr cache"
      "cache_read (inherited w) cache a = Inr v" "\<not> truthy_val v"
      by simp_all
    show ?thesis
      unfolding a(1) geocode_miss_fst [OF a(2-5)]
      by (auto split: jsnum.splits)
  qed
  have null: "\<forall>g. fst (geocode w addr) = Inr g \<longrightarrow> g = Json JNull \<or> truthy_val g"
    using geocode_null_store by blast
  have some: "\<forall>g. fst (geocode w addr) = Inr g \<and> truthy_val g \<longrightarrow>
        (\<exists>a cache. addr = Some a \<and> a \<noteq> [] \<and> load_cache (store w) = Inr cache \<and>
          (cache_read (inherited w) cache a = Inr g
           \<or> (\<exists>v json x la lo.
                 cache_read (inherited w) cache a = Inr v \<and> \<not> truthy_val v
                 \<and> answer w a = Body json \<and> first_result json = Inr x
                 \<and> parseFloat (js_get x ''lat'') = Fin la
                 \<and> parseFloat (js_get x ''lon'') = Fin lo
                 \<and> g = Json (pair_json (la, lo)))))"
  proof (intro allI impI, elim conjE)
    fix g
    assume "fst (geocode w addr) = Inr g" and "truthy_val g"
    from geocode_truthy_cases [OF this]
    obtain a cache where ac: "addr = Some a" "a \<noteq> []" "load_cache (store w) = Inr cache"
      and d: "(cache_read (inherited w) cache a = Inr g \<and> snd (geocode w addr) = emit (Invoked addr) w)
           \<or> (\<exists>v json x la lo cache'.
                 cache_read (inherited w) cache a = Inr v \<and> \<not> truthy_val v
                 \<and> answer w a = Body json \<and> truthy (js_length json)
                 \<and> first_result json = Inr x
                 \<and> parseFloat (js_get x ''lat'') = Fin la
                 \<and> parseFloat (js_get x ''lon'') = Fin lo
                 \<and> cache_write cache a (pair_json (la, lo)) = Inr cache'
                 \<and> g = Json (pair_json (la, lo))
                 \<and> store (snd (geocode w addr)) = Parsed (restringify cache'))"
      by blast
    from d have "cache_read (inherited w) cache a = Inr g
           \<or> (\<exists>v json x la lo.
                 cache_read (inherited w) cache a = Inr v \<and> \<not> truthy_val v
                 \<and> answer w a = Body json \<and> first_result json = Inr x
                 \<and> parseFloat (js_get x ''lat'') = Fin la
                 \<and> parseFloat (js_get x ''lon'') = Fin lo
                 \<and> g = Json (pair_json (la, lo)))"
      by (elim disjE exE conjE) (simp, (rule disjI2, blast))
    with ac show "\<exists>a cache. addr = Some a \<and> a \<noteq> [] \<and> load_cache (store w) = Inr cache \<and>
          (cache_read (inherited w) cache a = Inr g
           \<or> (\<exists>v json x la lo.
                 cache_read (inherited w) cache a = Inr v \<and> \<not> truthy_val v
                 \<and> answer w a = Body json \<and> first_result json = Inr x
                 \<and> parseFloat (js_get x ''lat'') = Fin la
                 \<and> parseFloat (js_get x ''lon'') = Fin lo
                 \<and> g = Json (pair_json (la, lo))))"
      by (intro exI [of _ a] exI [of _ cache] conjI)
  qed
  from miss have miss': "\<forall>a cache v. addr = Some a \<and> a \<noteq> [] \<and> load_cache (store w) = Inr cache
          \<and> cache_read (inherited w) cache a = Inr v \<and> \<not> truthy_val v \<longrightarrow>
        (answer w a = NetFail \<longrightarrow> fst (geocode w addr) = Inr (Json JNull))
      \<and> (answer w a = BadBody \<longrightarrow> fst (geocode w addr) = Inr (Json JNull))
      \<and> (answer w a = NotOk \<longrightarrow> fst (geocode w addr) = Inr (Json JNull))
      \<and> (\<forall>json. answer w a = Body json \<and> \<not> truthy (js_length json) \<longrightarrow>
            fst (geocode w addr) = Inr (Json JNull))
      \<and> (\<forall>json x. answer w a = Body json \<and> first_result json = Inr x
            \<and> \<not> (isFinite (parseFloat (js_get x ''lat''))
                  \<and> isFinite (parseFloat (js_get x ''lon''))) \<longrightarrow>
            fst (geocode w addr) = Inr (Json JNull))"
    by (intro allI impI)
  show ?thesis
    by (intro conjI) (rule raise empty miss' null some)+
qed

theorem geocode_absent_on_failure_never_raises_witness:
  "fst (geocode (fresh_world Missing NetFail) None) = Inr (Json JNull)
   \<and> fst (geocode (fresh_world Missing NetFail) (Some ''100 Main St'')) = Inr (Json JNull)
   \<and> fst (geocode (fresh_world Missing BadBody) (Some ''100 Main St'')) = Inr (Json JNull)
   \<and> fst (geocode (fresh_world Missing NotOk) (Some ''100 Main St'')) = Inr (Json JNull)
   \<and> fst (geocode (fresh_world Missing (Body (JArr []))) (Some ''100 Main St'')) = Inr (Json JNull)
   \<and> fst (geocode (fresh_world Missing (Body (one_result ''abc'' ''-77.3'')))
         (Some ''100 Main St'')) = Inr (Json JNull)
   \<and> fst (geocode (fresh_world Missing (Body (one_result ''39.2'' ''-77.3'')))
         (Some ''100 Main St'')) = Inr (Json (pair_json (196 / 5, - 773 / 10)))
   \<and> (\<exists>a cache. Some ''100 Main St'' = Some a \<and> a \<noteq> []
         \<and> load_cache (store (fresh_world Missing (Body (one_result ''39.2'' ''-77.3'')))) = Inr cache
         \<and> (cache_read (inherited (fresh_world Missing (Body (one_result ''39.2'' ''-77.3'')))) cache a
               = Inr (Json (pair_json (196 / 5, - 773 / 10)))
             \<or> (\<exists>v json x la lo.
                   cache_read (inherited (fresh_world Missing (Body (one_result ''39.2'' ''-77.3''))))
                     cache a = Inr v
                   \<and> \<not> truthy_val v
                   \<and> answer (fresh_world Missing (Body (one_result ''39.2'' ''-77.3''))) a = Body json
                   \<and> first_result json = Inr x
                   \<and> parseFloat (js_get x ''lat'') = Fin la
                   \<and> parseFloat (js_get x ''lon'') = Fin lo
                   \<and> Json (pair_json (196 / 5, - 773 / 10)) = Json (pair_json (la, lo)))))"
proof -
  let ?a = "''100 Main St''"
  note T = geocode_absent_on_failure_never_raises
  note empty = T [THEN conjunct2, THEN conjunct1, rule_format]
  note miss = T [THEN conjunct2, THEN conjunct2, THEN conjunct1, rule_format]
  note some = T [THEN conjunct2, THEN conjunct2, THEN conjunct2, THEN conjunct2, rule_format]
  have c1: "fst (geocode (fresh_world Missing NetFail) None) = Inr (Json JNull)"
    by (rule empty) simp
  have c2: "fst (geocode (fresh_world Missing NetFail) (Some ?a)) = Inr (Json JNull)"
    by (rule miss [OF miss_fresh, THEN conjunct1, rule_format]) (rule answer_fresh)
  have c3: "fst (geocode (fresh_world Missing BadBody) (Some ?a)) = Inr (Json JNull)"
    by (rule miss [OF miss_fresh, THEN conjunct2, THEN conjunct1, rule_format]) (rule answer_fresh)
  have c4: "fst (geocode (fresh_world Missing NotOk) (Some ?a)) = Inr (Json JNull)"
    by (rule miss [OF miss_fresh, THEN conjunct2, THEN conjunct2, THEN conjunct1, rule_format])
       (rule answer_fresh)
  have c5: "fst (geocode (fresh_world Missing (Body (JArr []))) (Some ?a)) = Inr (Json JNull)"
    by (rule miss [OF miss_fresh, THEN conjunct2, THEN conjunct2, THEN conjunct2, THEN conjunct1,
          rule_format, where json = "JArr []"])
       (simp add: answer_fresh)
  have c6: "fst (geocode (fresh_world Missing (Body (one_result ''abc'' ''-77.3''))) (Some ?a))
      = Inr (Json JNull)"
    by (rule miss [OF miss_fresh, THEN conjunct2, THEN conjunct2, THEN conjunct2, THEN conjunct2,
          rule_format, where json = "one_result ''abc'' ''-77.3''"
          and x = "JObj [(''lat'', JStr ''abc''), (''lon'', JStr ''-77.3'')]"])
       (simp add: answer_fresh first_one_result field_def parse_abc)
  have c7: "fst (geocode (fresh_world Missing (Body (one_result ''39.2'' ''-77.3''))) (Some ?a))
      = Inr (Json (pair_json (196 / 5, - 773 / 10)))"
    by (simp add: geocode_fresh_missing [OF parse_392 parse_m773])
  have c8: "\<exists>a cache. Some ?a = Some a \<and> a \<noteq> []
         \<and> load_cache (store (fresh_world Missing (Body (one_result ''39.2'' ''-77.3'')))) = Inr cache
         \<and> (cache_read (inherited (fresh_world Missing (Body (one_result ''39.2'' ''-77.3'')))) cache a
               = Inr (Json (pair_json (196 / 5, - 773 / 10)))
             \<or> (\<exists>v json x la lo.
                   cache_read (inherited (fresh_world Missing (Body (one_result ''39.2'' ''-77.3''))))
                     cache a = Inr v
                   \<and> \<not> truthy_val v
                   \<and> answer (fresh_world Missing (Body (one_result ''39.2'' ''-77.3''))) a = Body json
                   \<and> first_result json = Inr x
                   \<and> parseFloat (js_get x ''lat'') = Fin la
                   \<and> parseFloat (js_get x ''lon'') = Fin lo
                   \<and> Json (pair_json (196 / 5, - 773 / 10)) = Json (pair_json (la, lo))))"
    by (rule some) (simp add: c7 truthy_pair_json)
  show ?thesis
    by (intro conjI) (rule c1 c2 c3 c4 c5 c6 c7 c8)+
qed

text \<open>
  Claim C8 fails on the code where the loop throws. A first record with an embedded
  coordinate is resolved. When the next record has nothing but the address
  \<open>constructor\<close>, \<open>geocode\<close> returns what the cache object inherits under that name, line
  165 counts it and line 171 cannot take it apart: the run ends with a TypeError and
  publishes nothing, the resolved first record included. A \<open>null\<close> element of the feed
  ends the run in the same way, at line 38. The effect that fetches the records and
  \<open>geocode\<close> both catch what is thrown in them; this loop does not.
\<close>

theorem run_fails_on_inherited_cache_property:
  "loop_body (\<lambda>n. []) \<lparr>env = fresh_world Missing NetFail, geocoded = 0, out = []\<rparr>
       (JObj [(''location'', JObj [(''latitude'', JStr ''39.0''), (''longitude'', JStr ''-77.1'')])])
     = Inr \<lparr>env = fresh_world Missing NetFail, geocoded = 0,
            out = [make_point (JNum (Fin 39)) (JNum (Fin (- 771 / 10)))
              (JObj [(''location'',
                 JObj [(''latitude'', JStr ''39.0''), (''longitude'', JStr ''-77.1'')])])]\<rparr>
   \<and> run (\<lambda>n. []) (fresh_world Missing NetFail)
       [JObj [(''location'', JObj [(''latitude'', JStr ''39.0''), (''longitude'', JStr ''-77.1'')])],
        JObj [(''address'', JStr ''constructor'')]]
     = Inl TypeError
   \<and> run (\<lambda>n. []) (fresh_world Missing NetFail)
       [JObj [(''location'', JObj [(''latitude'', JStr ''39.0''), (''longitude'', JStr ''-77.1'')])],
        JNull]
     = Inl TypeError"
proof -
  let ?good = "JObj [(''location'', JObj [(''latitude'', JStr ''39.0''), (''longitude'', JStr ''-77.1'')])]"
  let ?w = "fresh_world Missing NetFail"
  let ?st0 = "\<lparr>env = ?w, geocoded = 0, out = []\<rparr>"
  let ?st1 = "\<lparr>env = ?w, geocoded = 0,
               out = [make_point (JNum (Fin 39)) (JNum (Fin (- 771 / 10))) ?good]\<rparr>"
  have v: "first_valid_embedded
      [(''location'', JObj [(''latitude'', JStr ''39.0''), (''longitude'', JStr ''-77.1'')])]
      = Some (39, - 771 / 10)"
    by (simp add: first_valid_embedded_def field_def parse_defs)
  have c1: "loop_body (\<lambda>n. []) ?st0 ?good = Inr ?st1"
    by (simp add: getCoords_first_valid v loop_body_def resolve_coords_def truthy_pair_json
        destructure_pair push_point_def)
  have g: "geocode ?w (Some ''constructor'')
      = (Inr (Builtin (NotIterable ''constructor'')), emit (Invoked (Some ''constructor'')) ?w)"
    by (rule geocode_hit [where cache = "JObj []"])
       (simp_all add: store_fresh inherited_fresh load_missing read_constructor)
  have "address_fallback (\<lambda>n. []) ?st1 (JObj [(''address'', JStr ''constructor'')]) =
     (if truthy_val (Builtin (NotIterable ''constructor''))
      then Inr (Builtin (NotIterable ''constructor''),
             ?st1\<lparr>env := emit (Invoked (Some ''constructor'')) ?w, geocoded := geocoded ?st1 + 1\<rparr>)
      else Inr (Json JNull, ?st1\<lparr>env := emit (Invoked (Some ''constructor'')) ?w\<rparr>))"
    by (rule address_fallback_address_only) (simp_all add: MAX_GEOCODE_def g)
  then have c2: "loop_body (\<lambda>n. []) ?st1 (JObj [(''address'', JStr ''constructor'')]) = Inl TypeError"
    by (simp add: loop_body_def resolve_coords_def getCoords_address_only destructure_def)
  have c3: "loop_body (\<lambda>n. []) ?st1 JNull = Inl TypeError"
    by (simp add: loop_body_def resolve_coords_def getCoordsFromRecord_def)
  from c1 c2 c3 show ?thesis
    by (simp add: run_def)
qed

text \<open>
  Claim C9. Without a reference coordinate \<open>nearest\<close> returns the empty list, whatever
  the points are; the guard comes before anything is computed.
\<close>

theorem nearest_absent_reference: "nearest ar None points = []"
  by (simp add: nearest_def)

text \<open>
  Claim C10. For a record without an embedded coordinate whose address source, the first
  truthy value of the priority list of \<open>bestAddress\<close>, is an object with no \<open>address\<close>
  entry, the fallback makes no address text: the turn of the loop returns the state it was
  given, so \<open>geocode\<close> is not called, the budget counter stays, and nothing is pushed.
\<close>

theorem object_without_address_is_skipped:
  assumes "getCoordsFromRecord r = Inr JNull"
    and "bestAddress r = JObj kvs"
    and "map_of kvs ''address'' = None"
  shows "address_fallback nts st r = Inr (Json JNull, st) \<and> loop_body nts st r = Inr st"
  using assms
  by (simp add: loop_body_def resolve_coords_def address_fallback_def address_text_def field_def)

theorem object_without_address_is_skipped_witness:
  "getCoordsFromRecord (JObj [(''intake_location'', JObj [(''city'', JStr ''Rockville'')])]) = Inr JNull
   \<and> bestAddress (JObj [(''intake_location'', JObj [(''city'', JStr ''Rockville'')])])
       = JObj [(''city'', JStr ''Rockville'')]
   \<and> map_of [(''city'', JStr ''Rockville'')] ''address'' = None
   \<and> loop_body (\<lambda>n. []) \<lparr>env = fresh_world Missing NetFail, geocoded = 0, out = []\<rparr>
        (JObj [(''intake_location'', JObj [(''city'', JStr ''Rockville'')])])
       = Inr \<lparr>env = fresh_world Missing NetFail, geocoded = 0, out = []\<rparr>"
proof -
  let ?r = "JObj [(''intake_location'', JObj [(''city'', JStr ''Rockville'')])]"
  have h1: "getCoordsFromRecord ?r = Inr JNull"
    by (simp add: getCoordsFromRecord_def candidates_def field_def)
  have h2: "bestAddress ?r = JObj [(''city'', JStr ''Rockville'')]"
    by (simp add: bestAddress_def field_def js_or_def)
  have h3: "map_of [(''city'', JStr ''Rockville'')] ''address'' = None"
    by simp
  from h1 h2 h3 object_without_address_is_skipped [OF h1 h2 h3] show ?thesis
    by blast
qed

end
